theory Spec2Isabelle
  imports Main "HOL-Library.Log_Nat"
begin

chapter \<open>The sum-to-n functions and the Author/Product CRUD core\<close>

section \<open>JavaScript numbers on integer values\<close>

text \<open>
  A JavaScript \<^verbatim>\<open>number\<close> is an IEEE 754 double. The three sum functions are called on
  natural numbers and only add, subtract, multiply and halve, so every value they compute is
  an integer-valued double; the model is \<^typ>\<open>int\<close> together with the rounding that each
  arithmetic operation performs. A double carries 53 significant bits: an integer of
  magnitude below \<open>2 ^ 53\<close> is stored exactly, a larger one is rounded to the nearest
  multiple of its unit in the last place, ties going to the even significand. The model
  covers the finite range (magnitudes below \<open>2 ^ 1024\<close>); the infinities are not
  represented.
\<close>

definition ulp :: "int \<Rightarrow> int" where
  "ulp x = 2 ^ nat (bitlen \<bar>x\<bar> - 53)"

definition fl :: "int \<Rightarrow> int" where
  "fl x = (let u = ulp x; q = x div u; r = x mod u in
     if 2 * r < u then q * u
     else if u < 2 * r then (q + 1) * u
     else if even q then q * u else (q + 1) * u)"

section \<open>The three sum functions\<close>

text \<open>
  \<^verbatim>\<open>sum_to_n_a\<close>: \<^verbatim>\<open>let total = 0; for (let i = 1; i <= n; i++) { total += i }; return total\<close>.
  The loop is the recursive function below on the loop state \<open>(i, total)\<close>; the counter can
  stop growing once \<open>i + 1\<close> is no longer representable, so the loop is a partial function
  and \<open>None\<close> is the run that never returns.
\<close>

partial_function (option) sum_to_n_a_loop :: "int \<Rightarrow> int \<Rightarrow> int \<Rightarrow> int option" where
  "sum_to_n_a_loop n i total' =
     (if i \<le> n then sum_to_n_a_loop n (fl (i + 1)) (fl (total' + i)) else Some total')"

definition sum_to_n_a :: "int \<Rightarrow> int option" where
  "sum_to_n_a n = sum_to_n_a_loop n 1 0"

text \<open>
  \<^verbatim>\<open>sum_to_n_b\<close>: \<^verbatim>\<open>if (n <= 1) return n; return n + sum_to_n_b(n - 1)\<close>. The recursion is
  not a tail call (the source notes its \<open>O(n)\<close> space): every call holds a frame of the
  engine's call stack until the inner call returns, and a call for which no frame is left
  throws \<^verbatim>\<open>RangeError\<close>. The size of the stack is the engine's, so it is the parameter
  \<open>depth\<close>, the number of calls that still fit.
\<close>

datatype range_error = RangeError

fun sum_to_n_b :: "nat \<Rightarrow> int \<Rightarrow> range_error + int" where
  "sum_to_n_b 0 n = Inl RangeError"
| "sum_to_n_b (Suc depth) n =
     (if n \<le> 1 then Inr n
      else (case sum_to_n_b depth (fl (n - 1)) of
              Inl e \<Rightarrow> Inl e
            | Inr r \<Rightarrow> Inr (fl (n + r))))"

text \<open>
  \<^verbatim>\<open>sum_to_n_c\<close>: \<^verbatim>\<open>return (n * (n + 1)) / 2\<close>. Halving a double is exact, and the rounded
  product is always even (lemma \<open>sum_to_n_c_halving_exact\<close>), so the quotient is the integer
  \<open>div 2\<close>.
\<close>

definition sum_to_n_c :: "int \<Rightarrow> int" where
  "sum_to_n_c n = fl (n * fl (n + 1)) div 2"

text \<open>The closed form the three functions are compared with: \<open>n (n + 1) / 2\<close>.\<close>

definition triangular :: "int \<Rightarrow> int" where
  "triangular k = k * (k + 1) div 2"

section \<open>JavaScript values of the CRUD core\<close>

text \<open>
  A \<^verbatim>\<open>Date\<close> holds a time value in milliseconds since the epoch, or is an Invalid Date.
\<close>

datatype jsdate = ValidDate int | InvalidDate

text \<open>The union \<^verbatim>\<open>Date | string\<close> of the \<^verbatim>\<open>datePublish\<close> inputs.\<close>

datatype date_input = DateObject jsdate | DateString string

text \<open>
  The values that the gateway returns and the handlers serialise. \<open>JFunction\<close> is a
  function object, \<open>JUndefined\<close> is also what an \<^verbatim>\<open>async\<close> function without a
  \<^verbatim>\<open>return\<close> resolves to.
\<close>

datatype jsval =
    JUndefined
  | JNull
  | JBool bool
  | JNum int
  | JStr string
  | JDate jsdate
  | JFunction
  | JObj "(string \<times> jsval) list"
  | JArr "jsval list"

text \<open>Reading the own property names of an object, and one property (\<^verbatim>\<open>o.k\<close>).\<close>

fun obj_keys :: "jsval \<Rightarrow> string list" where
  "obj_keys (JObj kvs) = map fst kvs"
| "obj_keys v = []"

fun obj_get :: "jsval \<Rightarrow> string \<Rightarrow> jsval" where
  "obj_get (JObj kvs) k = (case map_of kvs k of Some v \<Rightarrow> v | None \<Rightarrow> JUndefined)"
| "obj_get v k = JUndefined"

fun is_object :: "jsval \<Rightarrow> bool" where
  "is_object (JObj kvs) = True"
| "is_object v = False"

text \<open>The truthiness test that \<^verbatim>\<open>if\<close>, \<^verbatim>\<open>!\<close> and \<^verbatim>\<open>||\<close> apply to a value.\<close>

fun ToBoolean :: "jsval \<Rightarrow> bool" where
  "ToBoolean JUndefined = False"
| "ToBoolean JNull = False"
| "ToBoolean (JBool b) = b"
| "ToBoolean (JNum n) = (n \<noteq> 0)"
| "ToBoolean (JStr str) = (str \<noteq> [])"
| "ToBoolean (JDate d) = True"
| "ToBoolean JFunction = True"
| "ToBoolean (JObj kvs) = True"
| "ToBoolean (JArr vs) = True"

text \<open>
  \<^verbatim>\<open>new Date(v)\<close>: a \<^verbatim>\<open>Date\<close> argument is copied, a string is parsed. The parser
  \<^verbatim>\<open>Date.parse\<close> belongs to the language, not to the repository, and its accepted formats
  beyond ISO 8601 depend on the engine: it is the parameter \<open>Date_parse\<close>, which returns the
  time value or \<open>None\<close> for a string it does not parse.
\<close>

definition new_Date :: "(string \<Rightarrow> int option) \<Rightarrow> date_input \<Rightarrow> jsdate" where
  "new_Date Date_parse v =
     (case v of
        DateObject d \<Rightarrow> d
      | DateString str \<Rightarrow> (case Date_parse str of Some t \<Rightarrow> ValidDate t | None \<Rightarrow> InvalidDate))"

section \<open>Entity schema\<close>

text \<open>The type \<^verbatim>\<open>Author\<close> of \<^verbatim>\<open>author.service.ts\<close>; it is also the row of the author table.\<close>

record Author =
  ID :: int
  firstName :: string
  lastName :: string
  createdAt :: jsdate
  updatedAt :: jsdate

text \<open>
  Modelled from the spec: the row of the product table. The database schema is not among the
  sources; the fields are those of the spec's data model (\<open>ID\<close>, \<open>title\<close>, \<open>isFiction\<close>,
  \<open>datePublish\<close>, the foreign key \<open>authorID\<close>, and the two timestamps).
\<close>

record Product =
  ID :: int
  title :: string
  isFiction :: bool
  datePublish :: jsdate
  authorID :: int
  createdAt :: jsdate
  updatedAt :: jsdate

text \<open>The type \<^verbatim>\<open>ProductWrite\<close> of \<^verbatim>\<open>product.entities.ts\<close>: the \<^verbatim>\<open>data\<close> object of a create.\<close>

record ProductWrite =
  title :: string
  isFiction :: bool
  datePublish :: jsdate
  authorID :: int

text \<open>
  The \<^verbatim>\<open>data\<close> object of an update, which the builder fills property by property
  (\<^verbatim>\<open>const updateData: any = {}\<close>). \<open>None\<close> is a property that is missing or \<^verbatim>\<open>undefined\<close>.
\<close>

record ProductUpdateInput =
  title :: "string option"
  isFiction :: "bool option"
  datePublish :: "jsdate option"
  authorID :: "int option"

text \<open>The \<^verbatim>\<open>data\<close> object \<^verbatim>\<open>{ firstName, lastName }\<close> that the author service builds.\<close>

record AuthorUpdateInput =
  firstName :: "string option"
  lastName :: "string option"

text \<open>The type \<^verbatim>\<open>ProductCreateData\<close> of \<^verbatim>\<open>product.entities.ts\<close>.\<close>

record ProductCreateData =
  title :: string
  isFiction :: bool
  datePublish :: date_input
  authorID :: int

text \<open>
  The type \<^verbatim>\<open>ProductUpdateData\<close> of \<^verbatim>\<open>product.entities.ts\<close>. An optional property
  (\<^verbatim>\<open>title?: string\<close>) is an option: \<open>None\<close> when it is missing or \<^verbatim>\<open>undefined\<close>.
\<close>

record ProductUpdateData =
  title :: "string option"
  isFiction :: "bool option"
  datePublish :: "date_input option"
  authorID :: "int option"

text \<open>
  The argument \<^verbatim>\<open>author: Omit<Author, 'ID'>\<close> of \<^verbatim>\<open>updateAuthorById\<close> as it arrives at run
  time. The declared type is erased, and the PUT handler passes \<^verbatim>\<open>request.body\<close> on as it
  is, so each property may be missing (\<open>None\<close>).
\<close>

record AuthorInput =
  firstName :: "string option"
  lastName :: "string option"
  createdAt :: "jsdate option"
  updatedAt :: "jsdate option"

text \<open>
  Modelled from the spec: the failures of the store client, which is not among the sources.
  These are the two kinds of the spec's error taxonomy that the store raises.
\<close>

datatype error = NotFoundError | ReferentialIntegrityError

section \<open>The backing store\<close>

text \<open>
  Modelled from the spec: the state behind the process-wide handle \<^verbatim>\<open>db\<close>
  (\<^verbatim>\<open>utils/db.server\<close> and the database schema are not among the sources). Two tables in
  store order, the counters of the store-assigned identifiers, and \<open>now\<close>, the reading of
  the store's clock when the operation runs.
\<close>

record store =
  authors :: "Author list"
  products :: "Product list"
  nextAuthorID :: int
  nextProductID :: int
  now :: int

text \<open>
  Modelled from the spec: a field selection (\<^verbatim>\<open>select\<close>) of the store client; \<open>STrue\<close> is
  \<^verbatim>\<open>true\<close> and \<open>SSelect fs\<close> is the nested \<^verbatim>\<open>{ select: fs }\<close> on a relation.
\<close>

datatype sel = STrue | SSelect "(string \<times> sel) list"

text \<open>Modelled from the spec: the scalar columns of an author row, by name.\<close>

definition author_scalar :: "Author \<Rightarrow> string \<Rightarrow> jsval option" where
  "author_scalar a k =
     (if k = ''ID'' then Some (JNum (Author.ID a))
      else if k = ''firstName'' then Some (JStr (Author.firstName a))
      else if k = ''lastName'' then Some (JStr (Author.lastName a))
      else if k = ''createdAt'' then Some (JDate (Author.createdAt a))
      else if k = ''updatedAt'' then Some (JDate (Author.updatedAt a))
      else None)"

text \<open>Modelled from the spec: the scalar columns of a product row, by name.\<close>

definition product_scalar :: "Product \<Rightarrow> string \<Rightarrow> jsval option" where
  "product_scalar p k =
     (if k = ''ID'' then Some (JNum (Product.ID p))
      else if k = ''title'' then Some (JStr (Product.title p))
      else if k = ''isFiction'' then Some (JBool (Product.isFiction p))
      else if k = ''datePublish'' then Some (JDate (Product.datePublish p))
      else if k = ''authorID'' then Some (JNum (Product.authorID p))
      else if k = ''createdAt'' then Some (JDate (Product.createdAt p))
      else if k = ''updatedAt'' then Some (JDate (Product.updatedAt p))
      else None)"

text \<open>
  Modelled from the spec: an author row as the store returns it when no selection is
  given: every scalar column and no relation.
\<close>

definition author_object :: "Author \<Rightarrow> jsval" where
  "author_object a =
     JObj [(''ID'', JNum (Author.ID a)),
           (''firstName'', JStr (Author.firstName a)),
           (''lastName'', JStr (Author.lastName a)),
           (''createdAt'', JDate (Author.createdAt a)),
           (''updatedAt'', JDate (Author.updatedAt a))]"

text \<open>
  Modelled from the spec: a product row as the store returns it when no selection is
  given; the foreign key \<open>authorID\<close> is a scalar column, the relation \<open>author\<close> is not.
\<close>

definition product_object :: "Product \<Rightarrow> jsval" where
  "product_object p =
     JObj [(''ID'', JNum (Product.ID p)),
           (''title'', JStr (Product.title p)),
           (''isFiction'', JBool (Product.isFiction p)),
           (''datePublish'', JDate (Product.datePublish p)),
           (''authorID'', JNum (Product.authorID p)),
           (''createdAt'', JDate (Product.createdAt p)),
           (''updatedAt'', JDate (Product.updatedAt p))]"

text \<open>
  Modelled from the spec: the store's field projection. A selected scalar is copied. The
  relation \<open>author\<close> of a product is the row that its foreign key names, and the reverse
  relation of an author (the spec's product list, here \<open>products\<close>) is the list of the rows
  that reference the author: under \<open>STrue\<close> with every scalar column, under \<open>SSelect\<close> with
  the nested selection. Any other name is left out.
\<close>

fun select_product :: "store \<Rightarrow> (string \<times> sel) list \<Rightarrow> Product \<Rightarrow> (string \<times> jsval) list"
and select_author :: "store \<Rightarrow> (string \<times> sel) list \<Rightarrow> Author \<Rightarrow> (string \<times> jsval) list"
where
  "select_product s [] p = []"
| "select_product s ((k, STrue) # fs) p =
     (if k = ''author'' then
        [(k, (case find (\<lambda>a. Author.ID a = Product.authorID p) (authors s) of
                Some a \<Rightarrow> author_object a
              | None \<Rightarrow> JNull))]
      else
        (case product_scalar p k of
           Some v \<Rightarrow> [(k, v)]
         | None \<Rightarrow> [])) @ select_product s fs p"
| "select_product s ((k, SSelect sub) # fs) p =
     (if k = ''author'' then
        [(k, (case find (\<lambda>a. Author.ID a = Product.authorID p) (authors s) of
                Some a \<Rightarrow> JObj (select_author s sub a)
              | None \<Rightarrow> JNull))]
      else []) @ select_product s fs p"
| "select_author s [] a = []"
| "select_author s ((k, STrue) # fs) a =
     (if k = ''products'' then
        [(k, JArr (map product_object
                    (filter (\<lambda>p. Product.authorID p = Author.ID a) (products s))))]
      else
        (case author_scalar a k of
           Some v \<Rightarrow> [(k, v)]
         | None \<Rightarrow> [])) @ select_author s fs a"
| "select_author s ((k, SSelect sub) # fs) a =
     (if k = ''products'' then
        [(k, JArr (map (\<lambda>p. JObj (select_product s sub p))
                    (filter (\<lambda>p. Product.authorID p = Author.ID a) (products s))))]
      else []) @ select_author s fs a"

text \<open>Modelled from the spec: the author row with a given identifier, if there is one.\<close>

definition find_author :: "int \<Rightarrow> store \<Rightarrow> Author option" where
  "find_author ID' s = find (\<lambda>a. Author.ID a = ID') (authors s)"

text \<open>Modelled from the spec: the product row with a given identifier, if there is one.\<close>

definition find_product :: "int \<Rightarrow> store \<Rightarrow> Product option" where
  "find_product ID' s = find (\<lambda>p. Product.ID p = ID') (products s)"

text \<open>
  Modelled from the spec: \<^verbatim>\<open>db.author.findMany\<close>, all rows in store order under the
  selection. It has no failure.
\<close>

definition db_author_findMany :: "(string \<times> sel) list \<Rightarrow> store \<Rightarrow> jsval list" where
  "db_author_findMany select s = map (\<lambda>a. JObj (select_author s select a)) (authors s)"

text \<open>
  Modelled from the spec: \<^verbatim>\<open>db.author.findUnique\<close>, the row with the identifier under the
  selection, or \<^verbatim>\<open>null\<close> when there is none. It has no failure.
\<close>

definition db_author_findUnique :: "int \<Rightarrow> (string \<times> sel) list \<Rightarrow> store \<Rightarrow> jsval" where
  "db_author_findUnique ID' select s =
     (case find_author ID' s of
        None \<Rightarrow> JNull
      | Some a \<Rightarrow> JObj (select_author s select a))"

text \<open>
  Modelled from the spec: the effect of an update on one author row. Only the properties
  present in \<open>data\<close> are written, and the store assigns \<open>updatedAt\<close>.
\<close>

definition apply_author_update :: "AuthorUpdateInput \<Rightarrow> int \<Rightarrow> Author \<Rightarrow> Author" where
  "apply_author_update data t a =
     a\<lparr>Author.firstName :=
         (case AuthorUpdateInput.firstName data of Some v \<Rightarrow> v | None \<Rightarrow> Author.firstName a),
       Author.lastName :=
         (case AuthorUpdateInput.lastName data of Some v \<Rightarrow> v | None \<Rightarrow> Author.lastName a),
       Author.updatedAt := ValidDate t\<rparr>"

text \<open>
  Modelled from the spec: \<^verbatim>\<open>db.author.update\<close>. It fails with \<open>NotFoundError\<close> when no row
  has the identifier, and leaves the store as it was on failure.
\<close>

definition db_author_update ::
  "int \<Rightarrow> AuthorUpdateInput \<Rightarrow> (string \<times> sel) list \<Rightarrow> store \<Rightarrow> (error + jsval) \<times> store" where
  "db_author_update ID' data select s =
     (case find_author ID' s of
        None \<Rightarrow> (Inl NotFoundError, s)
      | Some a \<Rightarrow>
          (let s' = s\<lparr>authors :=
                 map (\<lambda>r. if Author.ID r = ID' then apply_author_update data (now s) r else r)
                   (authors s)\<rparr>
           in (Inr (JObj (select_author s' select (apply_author_update data (now s) a))), s')))"

text \<open>
  Modelled from the spec: \<^verbatim>\<open>db.author.delete\<close>. \<open>NotFoundError\<close> when no row has the
  identifier; \<open>ReferentialIntegrityError\<close>, and no cascade, when a product still references
  the author; otherwise the row is removed and returned.
\<close>

definition db_author_delete :: "int \<Rightarrow> store \<Rightarrow> (error + jsval) \<times> store" where
  "db_author_delete ID' s =
     (case find_author ID' s of
        None \<Rightarrow> (Inl NotFoundError, s)
      | Some a \<Rightarrow>
          (if list_ex (\<lambda>p. Product.authorID p = ID') (products s)
           then (Inl ReferentialIntegrityError, s)
           else (Inr (author_object a),
                 s\<lparr>authors := filter (\<lambda>r. Author.ID r \<noteq> ID') (authors s)\<rparr>)))"

text \<open>
  Modelled from the spec: \<^verbatim>\<open>db.product.findMany\<close>, all rows in store order under the
  selection. It has no failure.
\<close>

definition db_product_findMany :: "(string \<times> sel) list \<Rightarrow> store \<Rightarrow> jsval list" where
  "db_product_findMany select s = map (\<lambda>p. JObj (select_product s select p)) (products s)"

text \<open>
  Modelled from the spec: \<^verbatim>\<open>db.product.findUnique\<close>, the row with the identifier under the
  selection, or \<^verbatim>\<open>null\<close> when there is none. It has no failure.
\<close>

definition db_product_findUnique :: "int \<Rightarrow> (string \<times> sel) list \<Rightarrow> store \<Rightarrow> jsval" where
  "db_product_findUnique ID' select s =
     (case find_product ID' s of
        None \<Rightarrow> JNull
      | Some p \<Rightarrow> JObj (select_product s select p))"

text \<open>
  Modelled from the spec: \<^verbatim>\<open>db.product.create\<close>. \<open>ReferentialIntegrityError\<close> when
  \<open>authorID\<close> names no author; otherwise a new row with the store-assigned identifier and
  timestamps is appended and returned under the selection. The store applies no rule of its
  own to the other fields and keeps the \<^verbatim>\<open>Date\<close> it is given.
\<close>

definition db_product_create ::
  "ProductWrite \<Rightarrow> (string \<times> sel) list \<Rightarrow> store \<Rightarrow> (error + jsval) \<times> store" where
  "db_product_create data select s =
     (case find_author (ProductWrite.authorID data) s of
        None \<Rightarrow> (Inl ReferentialIntegrityError, s)
      | Some a \<Rightarrow>
          (let p = \<lparr>Product.ID = nextProductID s,
                    title = ProductWrite.title data,
                    isFiction = ProductWrite.isFiction data,
                    datePublish = ProductWrite.datePublish data,
                    authorID = ProductWrite.authorID data,
                    createdAt = ValidDate (now s),
                    updatedAt = ValidDate (now s)\<rparr>;
               s' = s\<lparr>products := products s @ [p], nextProductID := nextProductID s + 1\<rparr>
           in (Inr (JObj (select_product s' select p)), s')))"

text \<open>
  Modelled from the spec: the effect of an update on one product row. Only the properties
  present in \<open>data\<close> are written, and the store assigns \<open>updatedAt\<close>.
\<close>

definition apply_product_update :: "ProductUpdateInput \<Rightarrow> int \<Rightarrow> Product \<Rightarrow> Product" where
  "apply_product_update data t p =
     p\<lparr>Product.title :=
         (case ProductUpdateInput.title data of Some v \<Rightarrow> v | None \<Rightarrow> Product.title p),
       Product.isFiction :=
         (case ProductUpdateInput.isFiction data of Some v \<Rightarrow> v | None \<Rightarrow> Product.isFiction p),
       Product.datePublish :=
         (case ProductUpdateInput.datePublish data of Some v \<Rightarrow> v | None \<Rightarrow> Product.datePublish p),
       Product.authorID :=
         (case ProductUpdateInput.authorID data of Some v \<Rightarrow> v | None \<Rightarrow> Product.authorID p),
       Product.updatedAt := ValidDate t\<rparr>"

text \<open>
  Modelled from the spec: \<^verbatim>\<open>db.product.update\<close>. \<open>NotFoundError\<close> when no row has the
  identifier; then \<open>ReferentialIntegrityError\<close> when an \<open>authorID\<close> is given and names no
  author (the order in which the spec lists the two failures); the store is left as it was
  on failure.
\<close>

definition db_product_update ::
  "int \<Rightarrow> ProductUpdateInput \<Rightarrow> (string \<times> sel) list \<Rightarrow> store \<Rightarrow> (error + jsval) \<times> store" where
  "db_product_update ID' data select s =
     (case find_product ID' s of
        None \<Rightarrow> (Inl NotFoundError, s)
      | Some p \<Rightarrow>
          (if (case ProductUpdateInput.authorID data of
                 Some a \<Rightarrow> find_author a s = None
               | None \<Rightarrow> False)
           then (Inl ReferentialIntegrityError, s)
           else
             (let s' = s\<lparr>products :=
                    map (\<lambda>r. if Product.ID r = ID' then apply_product_update data (now s) r else r)
                      (products s)\<rparr>
              in (Inr (JObj (select_product s' select (apply_product_update data (now s) p))), s'))))"

text \<open>
  Modelled from the spec: \<^verbatim>\<open>db.product.delete\<close>. \<open>NotFoundError\<close> when no row has the
  identifier; otherwise the row is removed and returned, no selection being given.
\<close>

definition db_product_delete :: "int \<Rightarrow> store \<Rightarrow> (error + jsval) \<times> store" where
  "db_product_delete ID' s =
     (case find_product ID' s of
        None \<Rightarrow> (Inl NotFoundError, s)
      | Some p \<Rightarrow>
          (Inr (product_object p),
           s\<lparr>products := filter (\<lambda>r. Product.ID r \<noteq> ID') (products s)\<rparr>))"

text \<open>
  Modelled from the spec: the store's invariant. Every product references an existing
  author, identifiers are unique within a table and lie below the table's counter.
\<close>

definition wf_store :: "store \<Rightarrow> bool" where
  "wf_store s \<longleftrightarrow>
     list_all (\<lambda>p. find_author (Product.authorID p) s \<noteq> None) (products s) \<and>
     distinct (map Product.ID (products s)) \<and>
     distinct (map Author.ID (authors s)) \<and>
     list_all (\<lambda>p. Product.ID p < nextProductID s) (products s) \<and>
     list_all (\<lambda>a. Author.ID a < nextAuthorID s) (authors s)"

section \<open>The product gateway: \<^verbatim>\<open>ProductQueryBuilder\<close>\<close>

text \<open>The private field \<^verbatim>\<open>selectFields\<close>.\<close>

definition selectFields :: "(string \<times> sel) list" where
  "selectFields =
     [(''ID'', STrue),
      (''title'', STrue),
      (''isFiction'', STrue),
      (''datePublish'', STrue),
      (''author'', SSelect
         [(''ID'', STrue),
          (''firstName'', STrue),
          (''lastName'', STrue),
          (''createdAt'', STrue),
          (''updatedAt'', STrue)]),
      (''createdAt'', STrue),
      (''updatedAt'', STrue)]"

definition ProductQueryBuilder_findAll :: "store \<Rightarrow> jsval list" where
  "ProductQueryBuilder_findAll s = db_product_findMany selectFields s"

definition ProductQueryBuilder_findById :: "int \<Rightarrow> store \<Rightarrow> jsval" where
  "ProductQueryBuilder_findById ID' s = db_product_findUnique ID' selectFields s"

definition ProductQueryBuilder_create ::
  "(string \<Rightarrow> int option) \<Rightarrow> ProductCreateData \<Rightarrow> store \<Rightarrow> (error + jsval) \<times> store" where
  "ProductQueryBuilder_create Date_parse data s =
     (let parseDate = new_Date Date_parse (ProductCreateData.datePublish data)
      in db_product_create
           \<lparr>ProductWrite.title = ProductCreateData.title data,
            isFiction = ProductCreateData.isFiction data,
            datePublish = parseDate,
            authorID = ProductCreateData.authorID data\<rparr>
           selectFields s)"

text \<open>
  \<^verbatim>\<open>update\<close> starts from the empty object and copies each property of \<^verbatim>\<open>data\<close> that is
  not \<^verbatim>\<open>undefined\<close>, the date through \<^verbatim>\<open>new Date\<close>.
\<close>

definition ProductQueryBuilder_update ::
  "(string \<Rightarrow> int option) \<Rightarrow> int \<Rightarrow> ProductUpdateData \<Rightarrow> store \<Rightarrow> (error + jsval) \<times> store" where
  "ProductQueryBuilder_update Date_parse ID' data s =
     (let updateData = \<lparr>ProductUpdateInput.title = None, isFiction = None,
                         datePublish = None, authorID = None\<rparr>;
          updateData =
            (if ProductUpdateData.title data \<noteq> None
             then updateData\<lparr>ProductUpdateInput.title := ProductUpdateData.title data\<rparr>
             else updateData);
          updateData =
            (if ProductUpdateData.isFiction data \<noteq> None
             then updateData\<lparr>ProductUpdateInput.isFiction := ProductUpdateData.isFiction data\<rparr>
             else updateData);
          updateData =
            (if ProductUpdateData.datePublish data \<noteq> None
             then updateData\<lparr>ProductUpdateInput.datePublish :=
                    map_option (new_Date Date_parse) (ProductUpdateData.datePublish data)\<rparr>
             else updateData);
          updateData =
            (if ProductUpdateData.authorID data \<noteq> None
             then updateData\<lparr>ProductUpdateInput.authorID := ProductUpdateData.authorID data\<rparr>
             else updateData)
      in db_product_update ID' updateData selectFields s)"

definition ProductQueryBuilder_delete :: "int \<Rightarrow> store \<Rightarrow> (error + jsval) \<times> store" where
  "ProductQueryBuilder_delete ID' s = db_product_delete ID' s"

section \<open>The author service\<close>

text \<open>The selection that each function of \<^verbatim>\<open>author.service.ts\<close> writes out in place.\<close>

definition author_select :: "(string \<times> sel) list" where
  "author_select =
     [(''ID'', STrue),
      (''firstName'', STrue),
      (''lastName'', STrue),
      (''createdAt'', STrue),
      (''updatedAt'', STrue)]"

definition getAuthors :: "store \<Rightarrow> jsval list" where
  "getAuthors s = db_author_findMany author_select s"

definition getAuthorById :: "int \<Rightarrow> store \<Rightarrow> jsval" where
  "getAuthorById ID' s = db_author_findUnique ID' author_select s"

text \<open>
  \<^verbatim>\<open>updateAuthorById\<close> reads \<^verbatim>\<open>firstName\<close> and \<^verbatim>\<open>lastName\<close> off its argument and passes
  both on; the other properties of the argument are not read.
\<close>

definition updateAuthorById :: "int \<Rightarrow> AuthorInput \<Rightarrow> store \<Rightarrow> (error + jsval) \<times> store" where
  "updateAuthorById ID' author s =
     db_author_update ID'
       \<lparr>AuthorUpdateInput.firstName = AuthorInput.firstName author,
        lastName = AuthorInput.lastName author\<rparr>
       author_select s"

text \<open>
  \<^verbatim>\<open>deleteAuthorById\<close> awaits the store's delete and returns nothing: a failure is passed
  on, the deleted row is dropped.
\<close>

definition deleteAuthorById :: "int \<Rightarrow> store \<Rightarrow> (error + jsval) \<times> store" where
  "deleteAuthorById ID' s =
     (case db_author_delete ID' s of
        (Inl e, s') \<Rightarrow> (Inl e, s')
      | (Inr deleted, s') \<Rightarrow> (Inr JUndefined, s'))"

section \<open>The product use cases\<close>

text \<open>
  The methods of a builder object. Each use case holds one in its private field
  \<^verbatim>\<open>builder\<close>: the one its constructor is given, or a new \<^verbatim>\<open>ProductQueryBuilder\<close>.
\<close>

record Builder =
  findAll :: "store \<Rightarrow> jsval list"
  findById :: "int \<Rightarrow> store \<Rightarrow> jsval"
  create :: "ProductCreateData \<Rightarrow> store \<Rightarrow> (error + jsval) \<times> store"
  update :: "int \<Rightarrow> ProductUpdateData \<Rightarrow> store \<Rightarrow> (error + jsval) \<times> store"
  delete :: "int \<Rightarrow> store \<Rightarrow> (error + jsval) \<times> store"

definition new_ProductQueryBuilder :: "(string \<Rightarrow> int option) \<Rightarrow> Builder" where
  "new_ProductQueryBuilder Date_parse =
     \<lparr>findAll = ProductQueryBuilder_findAll,
      findById = ProductQueryBuilder_findById,
      create = ProductQueryBuilder_create Date_parse,
      update = ProductQueryBuilder_update Date_parse,
      delete = ProductQueryBuilder_delete\<rparr>"

record Usecase =
  builder :: Builder

text \<open>The constructor shared by the five classes: \<^verbatim>\<open>this.builder = builder || new ProductQueryBuilder()\<close>.\<close>

definition new_Usecase :: "(string \<Rightarrow> int option) \<Rightarrow> Builder option \<Rightarrow> Usecase" where
  "new_Usecase Date_parse b =
     \<lparr>builder = (case b of Some given \<Rightarrow> given | None \<Rightarrow> new_ProductQueryBuilder Date_parse)\<rparr>"

definition GetProductsUsecase_execute :: "Usecase \<Rightarrow> store \<Rightarrow> jsval list" where
  "GetProductsUsecase_execute this s = findAll (builder this) s"

definition GetProductByIdUsecase_execute :: "Usecase \<Rightarrow> int \<Rightarrow> store \<Rightarrow> jsval" where
  "GetProductByIdUsecase_execute this ID' s = findById (builder this) ID' s"

definition CreateProductUsecase_execute ::
  "Usecase \<Rightarrow> ProductCreateData \<Rightarrow> store \<Rightarrow> (error + jsval) \<times> store" where
  "CreateProductUsecase_execute this data s = create (builder this) data s"

definition UpdateProductByIdUsecase_execute ::
  "Usecase \<Rightarrow> int \<Rightarrow> ProductUpdateData \<Rightarrow> store \<Rightarrow> (error + jsval) \<times> store" where
  "UpdateProductByIdUsecase_execute this ID' data s = update (builder this) ID' data s"

text \<open>
  \<^verbatim>\<open>DeleteProductByIdUsecase.execute\<close> is \<^verbatim>\<open>await this.builder.delete(ID)\<close> with the result
  type \<^verbatim>\<open>Promise<void>\<close>: a failure is passed on, the value of the delete is dropped.
\<close>

definition DeleteProductByIdUsecase_execute ::
  "Usecase \<Rightarrow> int \<Rightarrow> store \<Rightarrow> (error + jsval) \<times> store" where
  "DeleteProductByIdUsecase_execute this ID' s =
     (case delete (builder this) ID' s of
        (Inl e, s') \<Rightarrow> (Inl e, s')
      | (Inr deleted, s') \<Rightarrow> (Inr JUndefined, s'))"

section \<open>The PUT handler of the author router\<close>

text \<open>
  The object that \<^verbatim>\<open>validationResult(request)\<close> returns: its list of validation errors,
  read through the methods \<^verbatim>\<open>isEmpty()\<close> and \<^verbatim>\<open>array()\<close>. Reading the property
  \<^verbatim>\<open>errors.isEmpty\<close> without calling it yields the method itself, a function object.
\<close>

record Result =
  validation_errors :: "jsval list"

definition Result_isEmpty :: "Result \<Rightarrow> jsval" where
  "Result_isEmpty errors = JFunction"

definition Result_isEmpty_call :: "Result \<Rightarrow> jsval" where
  "Result_isEmpty_call errors = JBool (validation_errors errors = [])"

definition Result_array :: "Result \<Rightarrow> jsval" where
  "Result_array errors = JArr (validation_errors errors)"

text \<open>What a handler sends: a status and a JSON body, or the message of a caught error.\<close>

datatype payload = Json jsval | Message error

record Response =
  status :: int
  json :: payload

text \<open>
  \<^verbatim>\<open>authorRouter.put('/:id', ...)\<close>. \<open>errors\<close> is the result of the two body validators on
  the request, \<open>ID'\<close> the number that \<^verbatim>\<open>parseInt(request.params.id, 10)\<close> gives (a path
  whose id is not a number is outside the model), \<open>author\<close> the request body.
\<close>

definition authorRouter_put :: "Result \<Rightarrow> int \<Rightarrow> AuthorInput \<Rightarrow> store \<Rightarrow> Response \<times> store" where
  "authorRouter_put errors ID' author s =
     (if \<not> ToBoolean (Result_isEmpty errors)
      then (\<lparr>status = 400, json = Json (JObj [(''errors'', Result_array errors)])\<rparr>, s)
      else
        (case updateAuthorById ID' author s of
           (Inr updatedAuthor, s') \<Rightarrow> (\<lparr>status = 201, json = Json updatedAuthor\<rparr>, s')
         | (Inl e, s') \<Rightarrow> (\<lparr>status = 500, json = Message e\<rparr>, s')))"

section \<open>The fixed projection of a product\<close>

text \<open>
  The shape that the spec's read-projection invariant gives a returned product: an object
  with exactly the seven selected properties, whose \<open>author\<close> is an object with exactly
  \<open>ID\<close>, \<open>firstName\<close>, \<open>lastName\<close>, \<open>createdAt\<close> and \<open>updatedAt\<close>. So there is
  no \<open>authorID\<close> property and no product list under the author.
\<close>

definition fixed_projection :: "jsval \<Rightarrow> bool" where
  "fixed_projection v \<longleftrightarrow>
     is_object v \<and>
     distinct (obj_keys v) \<and>
     set (obj_keys v) =
       {''ID'', ''title'', ''isFiction'', ''datePublish'', ''author'', ''createdAt'', ''updatedAt''} \<and>
     is_object (obj_get v ''author'') \<and>
     distinct (obj_keys (obj_get v ''author'')) \<and>
     set (obj_keys (obj_get v ''author'')) =
       {''ID'', ''firstName'', ''lastName'', ''createdAt'', ''updatedAt''}"

section \<open>Example data\<close>

text \<open>
  A store with one author and one product of hers, and a parser that knows the ISO date
  \<^verbatim>\<open>2024-01-01\<close> (midnight UTC, \<open>1704067200000\<close> ms).
\<close>

definition example_store :: store where
  "example_store =
     \<lparr>authors = [\<lparr>Author.ID = 1, firstName = ''Jane'', lastName = ''Doe'',
                   createdAt = ValidDate 100, updatedAt = ValidDate 100\<rparr>],
      products = [\<lparr>Product.ID = 1, title = ''Book'', isFiction = True,
                    datePublish = ValidDate 1000, authorID = 1,
                    createdAt = ValidDate 200, updatedAt = ValidDate 200\<rparr>],
      nextAuthorID = 2, nextProductID = 2, now = 300\<rparr>"

definition example_parse :: "string \<Rightarrow> int option" where
  "example_parse str = (if str = ''2024-01-01'' then Some 1704067200000 else None)"

section \<open>Rounding: exact values\<close>

lemma ulp_small: "\<bar>x\<bar> < 2 ^ 53 \<Longrightarrow> ulp x = 1"
proof -
  assume a: "\<bar>x\<bar> < 2 ^ 53"
  have "bitlen \<bar>x\<bar> \<le> 53" using a by (simp add: bitlen_le_iff_power)
  then show ?thesis by (simp add: ulp_def)
qed

lemma fl_small: "\<bar>x\<bar> < 2 ^ 53 \<Longrightarrow> fl x = x"
  by (simp add: fl_def ulp_small)

lemma ulp_54: "2 ^ 53 \<le> \<bar>x\<bar> \<Longrightarrow> \<bar>x\<bar> < 2 ^ 54 \<Longrightarrow> ulp x = 2"
proof -
  assume a: "2 ^ 53 \<le> \<bar>x\<bar>" and b: "\<bar>x\<bar> < 2 ^ 54"
  have "bitlen \<bar>x\<bar> \<le> 54" using b by (simp add: bitlen_le_iff_power)
  moreover have "54 \<le> bitlen \<bar>x\<bar>" using a by (simp add: bitlen_ge_iff_power)
  ultimately have "bitlen \<bar>x\<bar> = 54" by simp
  then show ?thesis by (simp add: ulp_def)
qed

lemma fl_even: "even x \<Longrightarrow> \<bar>x\<bar> < 2 ^ 54 \<Longrightarrow> fl x = x"
proof (cases "\<bar>x\<bar> < 2 ^ 53")
  case True
  then show ?thesis by (simp add: fl_small)
next
  case False
  assume e: "even x" and b: "\<bar>x\<bar> < 2 ^ 54"
  have u: "ulp x = 2" using False b by (simp add: ulp_54)
  have "x mod 2 = 0" using e by presburger
  then show ?thesis using e by (simp add: fl_def u Let_def)
qed

lemma even_ulp: "2 ^ 53 \<le> \<bar>x\<bar> \<Longrightarrow> even (ulp x)"
proof -
  assume a: "2 ^ 53 \<le> \<bar>x\<bar>"
  have "54 \<le> bitlen \<bar>x\<bar>" using a by (simp add: bitlen_ge_iff_power)
  then have "0 < nat (bitlen \<bar>x\<bar> - 53)" by simp
  then show ?thesis by (simp add: ulp_def)
qed

lemma fl_dvd: "ulp x dvd fl x"
  by (simp add: fl_def Let_def)

lemma even_fl: "even x \<or> 2 ^ 53 \<le> \<bar>x\<bar> \<Longrightarrow> even (fl x)"
proof (cases "\<bar>x\<bar> < 2 ^ 53")
  case True
  assume "even x \<or> 2 ^ 53 \<le> \<bar>x\<bar>"
  then show ?thesis using True by (simp add: fl_small)
next
  case False
  then have "2 ^ 53 \<le> \<bar>x\<bar>" by simp
  then have "even (ulp x)" by (rule even_ulp)
  then show ?thesis using fl_dvd [of x] by (rule dvd_trans)
qed

text \<open>The product that \<^verbatim>\<open>sum_to_n_c\<close> halves is even for every \<open>n\<close>, so the halving is exact.\<close>

lemma sum_to_n_c_halving_exact: "even (fl (n * fl (n + 1)))"
proof -
  have "even (fl (n + 1)) \<or> fl (n + 1) = n + 1"
  proof (cases "\<bar>n + 1\<bar> < 2 ^ 53")
    case True
    then show ?thesis by (simp add: fl_small)
  next
    case False
    then have "2 ^ 53 \<le> \<bar>n + 1\<bar>" by simp
    then have "even (fl (n + 1))" by (intro even_fl disjI2)
    then show ?thesis by simp
  qed
  then have "even (n * fl (n + 1))" by auto
  then show ?thesis by (intro even_fl disjI1)
qed

section \<open>The sum functions up to \<open>n = 134217728\<close>\<close>

lemma triangular_step: "triangular (k - 1) + k = triangular k"
proof -
  have "k * (k + 1) = (k - 1) * k + k * 2" by (simp add: algebra_simps)
  then have "k * (k + 1) div 2 = (k - 1) * k div 2 + k" by simp
  then show ?thesis by (simp add: triangular_def)
qed

lemma triangular_sum: "0 \<le> n \<Longrightarrow> triangular n = \<Sum>{1..n}"
proof (induction n rule: int_ge_induct)
  case base
  show ?case by (simp add: triangular_def)
next
  case (step i)
  have "{1..i + 1} = insert (i + 1) {1..i}" using step.hyps by auto
  then have "\<Sum>{1..i + 1} = (i + 1) + \<Sum>{1..i}" by simp
  also have "\<dots> = (i + 1) + triangular i" using step.IH by simp
  also have "\<dots> = triangular (i + 1)" using triangular_step [of "i + 1"] by simp
  finally show ?case by simp
qed

lemma triangular_mono: "0 \<le> j \<Longrightarrow> j \<le> k \<Longrightarrow> triangular j \<le> triangular k"
proof -
  assume a: "0 \<le> j" and b: "j \<le> k"
  have "j * (j + 1) \<le> k * (k + 1)" using a b by (intro mult_mono) auto
  then show ?thesis by (simp add: triangular_def zdiv_mono1)
qed

lemma fl_triangular: "0 \<le> k \<Longrightarrow> k \<le> 134217728 \<Longrightarrow> fl (triangular k) = triangular k"
proof (cases "k = 134217728")
  case True
  then show ?thesis by (simp add: triangular_def) code_simp
next
  case False
  assume a: "0 \<le> k" and b: "k \<le> 134217728"
  have le: "k \<le> 134217727" using False b by simp
  have "triangular k \<le> triangular 134217727" using a le by (rule triangular_mono)
  also have "\<dots> < 2 ^ 53" by (simp add: triangular_def)
  finally have up: "triangular k < 2 ^ 53" .
  have "triangular 0 \<le> triangular k" using a by (intro triangular_mono) auto
  then have "0 \<le> triangular k" by (simp add: triangular_def)
  with up show ?thesis by (intro fl_small) simp
qed

lemma sum_to_n_a_loop_exact:
  "1 \<le> i \<Longrightarrow> i \<le> n + 1 \<Longrightarrow> n \<le> 134217728 \<Longrightarrow>
     sum_to_n_a_loop n i (triangular (i - 1)) = Some (triangular n)"
proof (induction "nat (n + 1 - i)" arbitrary: i)
  case 0
  then have "i = n + 1" by simp
  then show ?case by (subst sum_to_n_a_loop.simps) simp
next
  case (Suc d)
  have le: "i \<le> n" using Suc.hyps(2) by linarith
  have i1: "fl (i + 1) = i + 1" using Suc.prems le by (intro fl_small) simp
  have t: "fl (triangular (i - 1) + i) = triangular i"
    using fl_triangular [of i] Suc.prems le by (simp add: triangular_step)
  have d: "d = nat (n + 1 - (i + 1))" using Suc.hyps(2) by linarith
  have "sum_to_n_a_loop n (i + 1) (triangular (i + 1 - 1)) = Some (triangular n)"
    using d Suc.prems le by (intro Suc.hyps(1)) auto
  then show ?case using le i1 t by (subst sum_to_n_a_loop.simps) simp
qed

lemma sum_to_n_a_exact:
  "0 \<le> n \<Longrightarrow> n \<le> 134217728 \<Longrightarrow> sum_to_n_a n = Some (triangular n)"
  using sum_to_n_a_loop_exact [of 1 n] by (simp add: sum_to_n_a_def triangular_def)

lemma sum_to_n_b_exact:
  "0 \<le> n \<Longrightarrow> n \<le> 134217728 \<Longrightarrow> max 1 (nat n) \<le> depth \<Longrightarrow>
     sum_to_n_b depth n = Inr (triangular n)"
proof (induction n arbitrary: depth rule: int_ge_induct)
  case base
  then obtain d where "depth = Suc d" by (cases depth) auto
  then show ?case by (simp add: triangular_def)
next
  case (step i)
  from step.prems obtain d where d: "depth = Suc d" by (cases depth) auto
  show ?case
  proof (cases "i = 0")
    case True
    then show ?thesis by (simp add: d triangular_def)
  next
    case False
    have m: "fl (i + 1 - 1) = i" using step by (intro trans [OF fl_small]) auto
    have "max 1 (nat i) \<le> d" using step.prems step.hyps False d by auto
    then have r: "sum_to_n_b d i = Inr (triangular i)" using step by simp
    have "fl (i + 1 + triangular i) = triangular (i + 1)"
      using fl_triangular [of "i + 1"] triangular_step [of "i + 1"] step
      by (simp add: add.commute)
    then show ?thesis using False step.hyps m r by (simp add: d)
  qed
qed

text \<open>With fewer frames than \<open>n\<close> the recursion does not reach its base case.\<close>

lemma sum_to_n_b_overflow:
  "0 \<le> n \<Longrightarrow> n \<le> 134217728 \<Longrightarrow> depth < max 1 (nat n) \<Longrightarrow>
     sum_to_n_b depth n = Inl RangeError"
proof (induction depth arbitrary: n)
  case 0
  show ?case by simp
next
  case (Suc d)
  have big: "1 < n" using Suc.prems by auto
  have m: "fl (n - 1) = n - 1" using Suc.prems by (intro fl_small) auto
  have "sum_to_n_b d (n - 1) = Inl RangeError"
    using Suc.prems big by (intro Suc.IH) auto
  then show ?case using big m by simp
qed

lemma sum_to_n_c_exact:
  "0 \<le> n \<Longrightarrow> n \<le> 134217728 \<Longrightarrow> sum_to_n_c n = triangular n"
proof (cases "n = 134217728")
  case True
  then show ?thesis by (simp add: triangular_def) code_simp
next
  case False
  assume a: "0 \<le> n" and b: "n \<le> 134217728"
  have le: "n \<le> 134217727" using False b by simp
  have s: "fl (n + 1) = n + 1" using a b by (intro fl_small) simp
  have "n * (n + 1) \<le> 134217727 * (134217727 + 1)" using a le by (intro mult_mono) auto
  then have up: "\<bar>n * (n + 1)\<bar> < 2 ^ 54" using a by simp
  have "even (n * (n + 1))" by simp
  then have "fl (n * (n + 1)) = n * (n + 1)" using up by (rule fl_even)
  then show ?thesis by (simp add: sum_to_n_c_def s triangular_def)
qed

text \<open>
  C8 (as amended). For every natural number \<open>n\<close> up to \<open>134217728 = 2 ^ 27\<close>, the three
  functions return the same value, which is \<open>1 + 2 + \<dots> + n = n (n + 1) / 2\<close>: on this
  range the loop returns, and so does the recursion when the call stack has room for its
  \<open>n\<close> nested calls.
\<close>

theorem C8_sum_to_n_agree:
  assumes "0 \<le> n" and "n \<le> 134217728" and "max 1 (nat n) \<le> depth"
  shows "sum_to_n_a n = Some (triangular n) \<and>
         sum_to_n_b depth n = Inr (triangular n) \<and>
         sum_to_n_c n = triangular n \<and>
         triangular n = \<Sum>{1..n} \<and>
         triangular n = n * (n + 1) div 2"
  using assms
  by (simp add: sum_to_n_a_exact sum_to_n_b_exact sum_to_n_c_exact triangular_sum [symmetric])
     (simp add: triangular_def)

theorem C8_sum_to_n_agree_witness:
  "sum_to_n_a 4 = Some 10 \<and> sum_to_n_b 4 4 = Inr 10 \<and> sum_to_n_c 4 = 10 \<and>
   \<Sum>{1..4::int} = 10 \<and>
   sum_to_n_a 0 = Some 0 \<and> sum_to_n_b 1 0 = Inr 0 \<and> sum_to_n_c 0 = 0"
proof -
  have t: "triangular 4 = 10" "triangular 0 = 0" by (simp_all add: triangular_def)
  show ?thesis
    using C8_sum_to_n_agree [of 4 4] C8_sum_to_n_agree [of 0 1] by (simp add: t)
qed

text \<open>
  C8 (as stated) fails at \<open>n = 134217729 = 2 ^ 27 + 1\<close>: the product \<open>n (n + 1)\<close> lies above
  \<open>2 ^ 54\<close>, where doubles are four apart, and is rounded down by two, so \<^verbatim>\<open>sum_to_n_c\<close>
  returns one less than \<open>n (n + 1) / 2\<close>.
\<close>

theorem C8_sum_to_n_c_counterexample:
  "sum_to_n_c 134217729 = 9007199456067584 \<and>
   triangular 134217729 = 9007199456067585"
  by (simp add: triangular_def) code_simp

section \<open>Lookups in an updated table\<close>

lemma find_map_same:
  assumes "\<And>r. key (f r) = key r"
  shows "find (\<lambda>r. key r = i) (map (\<lambda>r. if key r = i then f r else r) xs)
         = map_option f (find (\<lambda>r. key r = i) xs)"
  using assms by (induction xs) auto

lemma find_map_other:
  assumes "\<And>r. key (f r) = key r" and "j \<noteq> i"
  shows "find (\<lambda>r. key r = j) (map (\<lambda>r. if key r = i then f r else r) xs)
         = find (\<lambda>r. key r = j) xs"
  using assms by (induction xs) auto

lemma apply_product_update_ID [simp]: "Product.ID (apply_product_update d t p) = Product.ID p"
  by (simp add: apply_product_update_def)

lemma apply_author_update_ID [simp]: "Author.ID (apply_author_update d t a) = Author.ID a"
  by (simp add: apply_author_update_def)

lemma select_product_selectFields:
  "select_product s selectFields p =
     [(''ID'', JNum (Product.ID p)),
      (''title'', JStr (Product.title p)),
      (''isFiction'', JBool (Product.isFiction p)),
      (''datePublish'', JDate (Product.datePublish p)),
      (''author'',
         (case find_author (Product.authorID p) s of
            Some a \<Rightarrow>
              JObj [(''ID'', JNum (Author.ID a)),
                    (''firstName'', JStr (Author.firstName a)),
                    (''lastName'', JStr (Author.lastName a)),
                    (''createdAt'', JDate (Author.createdAt a)),
                    (''updatedAt'', JDate (Author.updatedAt a))]
          | None \<Rightarrow> JNull)),
      (''createdAt'', JDate (Product.createdAt p)),
      (''updatedAt'', JDate (Product.updatedAt p))]"
  by (simp add: selectFields_def product_scalar_def author_scalar_def find_author_def
      split: option.split)

lemma select_author_author_select:
  "select_author s author_select a =
     [(''ID'', JNum (Author.ID a)),
      (''firstName'', JStr (Author.firstName a)),
      (''lastName'', JStr (Author.lastName a)),
      (''createdAt'', JDate (Author.createdAt a)),
      (''updatedAt'', JDate (Author.updatedAt a))]"
  by (simp add: author_select_def author_scalar_def)

text \<open>The object that \<^verbatim>\<open>update\<close> hands to the store.\<close>

lemma ProductQueryBuilder_update_data:
  "ProductQueryBuilder_update Date_parse ID' data s =
     db_product_update ID'
       \<lparr>ProductUpdateInput.title = ProductUpdateData.title data,
        isFiction = ProductUpdateData.isFiction data,
        datePublish = map_option (new_Date Date_parse) (ProductUpdateData.datePublish data),
        authorID = ProductUpdateData.authorID data\<rparr>
       selectFields s"
  by (cases "ProductUpdateData.title data"; cases "ProductUpdateData.isFiction data";
      cases "ProductUpdateData.datePublish data"; cases "ProductUpdateData.authorID data")
     (simp_all add: ProductQueryBuilder_update_def)

lemma find_product_after_update:
  "find_product j
     (s\<lparr>products := map (\<lambda>r. if Product.ID r = i then apply_product_update d t r else r) (products s)\<rparr>)
   = (if j = i then map_option (apply_product_update d t) (find_product i s) else find_product j s)"
  using find_map_same [of Product.ID "apply_product_update d t" i "products s"]
        find_map_other [of Product.ID "apply_product_update d t" j i "products s"]
  by (simp add: find_product_def)

lemma find_author_after_update:
  "find_author j
     (s\<lparr>authors := map (\<lambda>r. if Author.ID r = i then apply_author_update d t r else r) (authors s)\<rparr>)
   = (if j = i then map_option (apply_author_update d t) (find_author i s) else find_author j s)"
  using find_map_same [of Author.ID "apply_author_update d t" i "authors s"]
        find_map_other [of Author.ID "apply_author_update d t" j i "authors s"]
  by (simp add: find_author_def)

lemma find_author_products_upd [simp]: "find_author j (s\<lparr>products := ps\<rparr>) = find_author j s"
  by (simp add: find_author_def)

lemma find_product_authors_upd [simp]: "find_product j (s\<lparr>authors := as\<rparr>) = find_product j s"
  by (simp add: find_product_def)

lemma ProductQueryBuilder_update_success:
  assumes "find_product ID' s = Some p"
    and "\<And>a. ProductUpdateData.authorID data = Some a \<Longrightarrow> find_author a s \<noteq> None"
  shows "\<exists>s'. ProductQueryBuilder_update Date_parse ID' data s
            = (Inr (ProductQueryBuilder_findById ID' s'), s') \<and>
          authors s' = authors s \<and>
          find_product ID' s' =
            Some (p\<lparr>Product.title :=
                      (case ProductUpdateData.title data of Some v \<Rightarrow> v | None \<Rightarrow> Product.title p),
                    Product.isFiction :=
                      (case ProductUpdateData.isFiction data of Some v \<Rightarrow> v | None \<Rightarrow> Product.isFiction p),
                    Product.datePublish :=
                      (case ProductUpdateData.datePublish data of
                         Some v \<Rightarrow> new_Date Date_parse v | None \<Rightarrow> Product.datePublish p),
                    Product.authorID :=
                      (case ProductUpdateData.authorID data of Some v \<Rightarrow> v | None \<Rightarrow> Product.authorID p),
                    Product.updatedAt := ValidDate (now s)\<rparr>) \<and>
          (\<forall>j. j \<noteq> ID' \<longrightarrow> find_product j s' = find_product j s)"
proof -
  let ?d = "\<lparr>ProductUpdateInput.title = ProductUpdateData.title data,
        isFiction = ProductUpdateData.isFiction data,
        datePublish = map_option (new_Date Date_parse) (ProductUpdateData.datePublish data),
        authorID = ProductUpdateData.authorID data\<rparr>"
  let ?s = "s\<lparr>products := map (\<lambda>r. if Product.ID r = ID' then apply_product_update ?d (now s) r else r) (products s)\<rparr>"
  have ok: "\<not> (case ProductUpdateData.authorID data of Some a \<Rightarrow> find_author a s = None | None \<Rightarrow> False)"
    using assms(2) by (auto split: option.split)
  have f: "find_product ID' ?s = Some (apply_product_update ?d (now s) p)"
    using assms(1) by (simp add: find_product_after_update)
  have r: "ProductQueryBuilder_update Date_parse ID' data s
        = (Inr (JObj (select_product ?s selectFields (apply_product_update ?d (now s) p))), ?s)"
    using assms(1) ok
    by (simp add: ProductQueryBuilder_update_data db_product_update_def Let_def)
  have g: "ProductQueryBuilder_findById ID' ?s
        = JObj (select_product ?s selectFields (apply_product_update ?d (now s) p))"
    using f by (simp add: ProductQueryBuilder_findById_def db_product_findUnique_def)
  have v: "apply_product_update ?d (now s) p =
            p\<lparr>Product.title :=
                      (case ProductUpdateData.title data of Some v \<Rightarrow> v | None \<Rightarrow> Product.title p),
                    Product.isFiction :=
                      (case ProductUpdateData.isFiction data of Some v \<Rightarrow> v | None \<Rightarrow> Product.isFiction p),
                    Product.datePublish :=
                      (case ProductUpdateData.datePublish data of
                         Some v \<Rightarrow> new_Date Date_parse v | None \<Rightarrow> Product.datePublish p),
                    Product.authorID :=
                      (case ProductUpdateData.authorID data of Some v \<Rightarrow> v | None \<Rightarrow> Product.authorID p),
                    Product.updatedAt := ValidDate (now s)\<rparr>"
    by (simp add: apply_product_update_def split: option.split)
  have o: "\<forall>j. j \<noteq> ID' \<longrightarrow> find_product j ?s = find_product j s"
    by (simp add: find_product_after_update)
  have a: "authors ?s = authors s" by simp
  show ?thesis using r g f v o a by (intro exI [of _ ?s]) (simp only: simp_thms)
qed

lemma updateAuthorById_success:
  assumes "find_author ID' s = Some a"
  shows "\<exists>s'. updateAuthorById ID' author s = (Inr (getAuthorById ID' s'), s') \<and>
          products s' = products s \<and>
          find_author ID' s' =
            Some (a\<lparr>Author.firstName :=
                      (case AuthorInput.firstName author of Some v \<Rightarrow> v | None \<Rightarrow> Author.firstName a),
                    Author.lastName :=
                      (case AuthorInput.lastName author of Some v \<Rightarrow> v | None \<Rightarrow> Author.lastName a),
                    Author.updatedAt := ValidDate (now s)\<rparr>) \<and>
          (\<forall>j. j \<noteq> ID' \<longrightarrow> find_author j s' = find_author j s)"
proof -
  let ?d = "\<lparr>AuthorUpdateInput.firstName = AuthorInput.firstName author,
             lastName = AuthorInput.lastName author\<rparr>"
  let ?s = "s\<lparr>authors := map (\<lambda>r. if Author.ID r = ID' then apply_author_update ?d (now s) r else r) (authors s)\<rparr>"
  have f: "find_author ID' ?s = Some (apply_author_update ?d (now s) a)"
    using assms by (simp add: find_author_after_update)
  have r: "updateAuthorById ID' author s
        = (Inr (JObj (select_author ?s author_select (apply_author_update ?d (now s) a))), ?s)"
    using assms by (simp add: updateAuthorById_def db_author_update_def Let_def)
  have g: "getAuthorById ID' ?s
        = JObj (select_author ?s author_select (apply_author_update ?d (now s) a))"
    using f by (simp add: getAuthorById_def db_author_findUnique_def)
  have v: "apply_author_update ?d (now s) a =
            a\<lparr>Author.firstName :=
                      (case AuthorInput.firstName author of Some v \<Rightarrow> v | None \<Rightarrow> Author.firstName a),
                    Author.lastName :=
                      (case AuthorInput.lastName author of Some v \<Rightarrow> v | None \<Rightarrow> Author.lastName a),
                    Author.updatedAt := ValidDate (now s)\<rparr>"
    by (simp add: apply_author_update_def)
  have o: "\<forall>j. j \<noteq> ID' \<longrightarrow> find_author j ?s = find_author j s"
    by (simp add: find_author_after_update)
  have p: "products ?s = products s" by simp
  show ?thesis using r g f v o p by (intro exI [of _ ?s]) (simp only: simp_thms)
qed

lemma find_snoc_fresh:
  assumes "list_all (\<lambda>r. key r < n) xs" and "key x = n"
  shows "find (\<lambda>r. key r = (n::int)) (xs @ [x]) = Some x"
  using assms by (induction xs) auto

lemma ProductQueryBuilder_create_success:
  assumes "find_author (ProductCreateData.authorID data) s = Some a"
  shows "ProductQueryBuilder_create Date_parse data s =
           (let p = \<lparr>Product.ID = nextProductID s,
                     title = ProductCreateData.title data,
                     isFiction = ProductCreateData.isFiction data,
                     datePublish = new_Date Date_parse (ProductCreateData.datePublish data),
                     authorID = ProductCreateData.authorID data,
                     createdAt = ValidDate (now s),
                     updatedAt = ValidDate (now s)\<rparr>;
                s' = s\<lparr>products := products s @ [p], nextProductID := nextProductID s + 1\<rparr>
            in (Inr (JObj (select_product s' selectFields p)), s'))"
  using assms by (simp add: ProductQueryBuilder_create_def db_product_create_def Let_def)

lemma obj_get_datePublish:
  "obj_get (JObj (select_product s selectFields p)) ''datePublish'' = JDate (Product.datePublish p)"
  by (simp add: select_product_selectFields)

lemma fixed_projection_select:
  assumes "find_author (Product.authorID p) s \<noteq> None"
  shows "fixed_projection (JObj (select_product s selectFields p))"
proof -
  from assms obtain a where a: "find_author (Product.authorID p) s = Some a" by auto
  show ?thesis by (simp add: fixed_projection_def select_product_selectFields a)
qed

lemma find_product_in_set: "find_product i s = Some p \<Longrightarrow> p \<in> set (products s)"
  by (auto simp: find_product_def find_Some_iff)

lemma wf_store_reference:
  "wf_store s \<Longrightarrow> p \<in> set (products s) \<Longrightarrow> find_author (Product.authorID p) s \<noteq> None"
  by (simp add: wf_store_def list_all_iff)

section \<open>The example store\<close>

lemma example_find_product:
  "find_product 1 example_store =
     Some \<lparr>Product.ID = 1, title = ''Book'', isFiction = True, datePublish = ValidDate 1000,
           authorID = 1, createdAt = ValidDate 200, updatedAt = ValidDate 200\<rparr>"
  by (simp add: find_product_def example_store_def)

lemma example_find_author:
  "find_author 1 example_store =
     Some \<lparr>Author.ID = 1, firstName = ''Jane'', lastName = ''Doe'',
           createdAt = ValidDate 100, updatedAt = ValidDate 100\<rparr>"
  by (simp add: find_author_def example_store_def)

lemma example_wf: "wf_store example_store"
  by (simp add: wf_store_def example_store_def find_author_def)

section \<open>The store invariant is kept by every write\<close>

lemma map_ID_product_update:
  "map Product.ID (map (\<lambda>r. if Product.ID r = i then apply_product_update d t r else r) ps)
     = map Product.ID ps"
  by (induction ps) auto

lemma map_ID_author_update:
  "map Author.ID (map (\<lambda>r. if Author.ID r = i then apply_author_update d t r else r) as)
     = map Author.ID as"
  by (induction as) auto

lemma find_filter_other:
  "j \<noteq> i \<Longrightarrow> find (\<lambda>r. key r = j) (filter (\<lambda>r. key r \<noteq> i) xs) = find (\<lambda>r. key r = j) xs"
  by (induction xs) auto

lemma wf_store_create:
  assumes "wf_store s"
  shows "wf_store (snd (ProductQueryBuilder_create Date_parse data s))"
proof (cases "find_author (ProductCreateData.authorID data) s")
  case None
  then show ?thesis using assms
    by (simp add: ProductQueryBuilder_create_def db_product_create_def)
next
  case (Some a)
  have "list_all (\<lambda>p. Product.ID p < nextProductID s) (products s)"
    using assms by (simp add: wf_store_def)
  then have fresh: "nextProductID s \<notin> Product.ID ` set (products s)"
    by (auto simp: list_all_iff)
  show ?thesis using assms Some fresh
    by (auto simp: ProductQueryBuilder_create_success Let_def wf_store_def list_all_iff
        find_author_def)
qed

lemma find_map_preserving:
  assumes "\<And>r. key (f r) = key r"
  shows "find (\<lambda>r. key r = j) (map f xs) = map_option f (find (\<lambda>r. key r = j) xs)"
  using assms by (induction xs) auto

lemma wf_store_products_map:
  assumes "wf_store s"
    and "\<And>r. Product.ID (f r) = Product.ID r"
    and "\<And>r. r \<in> set (products s) \<Longrightarrow> find_author (Product.authorID (f r)) s \<noteq> None"
  shows "wf_store (s\<lparr>products := map f (products s)\<rparr>)"
proof -
  have k: "Product.ID \<circ> f = Product.ID" using assms(2) by (simp add: fun_eq_iff)
  have "list_all (\<lambda>p. find_author (Product.authorID p) s \<noteq> None) (map f (products s))"
    using assms(3) by (simp add: list_all_iff)
  moreover have "distinct (map Product.ID (map f (products s)))"
    using assms(1) by (simp add: k wf_store_def)
  moreover have "list_all (\<lambda>p. Product.ID p < nextProductID s) (map f (products s))"
    using assms(1) by (simp add: list_all_iff assms(2) wf_store_def)
  ultimately show ?thesis using assms(1) by (simp add: wf_store_def)
qed

lemma wf_store_authors_map:
  assumes "wf_store s" and "\<And>r. Author.ID (f r) = Author.ID r"
  shows "wf_store (s\<lparr>authors := map f (authors s)\<rparr>)"
proof -
  have k: "Author.ID \<circ> f = Author.ID" using assms(2) by (simp add: fun_eq_iff)
  have f: "\<And>j. find_author j (s\<lparr>authors := map f (authors s)\<rparr>) = map_option f (find_author j s)"
    using find_map_preserving [of Author.ID f] assms(2) by (simp add: find_author_def)
  have "list_all (\<lambda>a. Author.ID a < nextAuthorID s) (map f (authors s))"
    using assms(1) by (simp add: list_all_iff assms(2) wf_store_def)
  moreover have "distinct (map Author.ID (map f (authors s)))"
    using assms(1) by (simp add: k wf_store_def)
  ultimately show ?thesis using assms(1) by (simp add: wf_store_def f)
qed

lemma wf_store_update:
  assumes "wf_store s"
  shows "wf_store (snd (ProductQueryBuilder_update Date_parse ID' data s))"
proof (cases "find_product ID' s = None \<or>
    (case ProductUpdateData.authorID data of Some a \<Rightarrow> find_author a s = None | None \<Rightarrow> False)")
  case True
  then show ?thesis using assms
    by (auto simp: ProductQueryBuilder_update_data db_product_update_def split: option.splits)
next
  case False
  let ?d = "\<lparr>ProductUpdateInput.title = ProductUpdateData.title data,
        isFiction = ProductUpdateData.isFiction data,
        datePublish = map_option (new_Date Date_parse) (ProductUpdateData.datePublish data),
        authorID = ProductUpdateData.authorID data\<rparr>"
  let ?f = "\<lambda>r. if Product.ID r = ID' then apply_product_update ?d (now s) r else r"
  have s: "snd (ProductQueryBuilder_update Date_parse ID' data s) = s\<lparr>products := map ?f (products s)\<rparr>"
    using False
    by (auto simp: ProductQueryBuilder_update_data db_product_update_def Let_def split: option.splits)
  have old: "\<And>r. r \<in> set (products s) \<Longrightarrow> find_author (Product.authorID r) s \<noteq> None"
    using assms by (rule wf_store_reference)
  have new: "\<And>r. r \<in> set (products s) \<Longrightarrow>
      find_author (Product.authorID (apply_product_update ?d (now s) r)) s \<noteq> None"
    using False old
    by (cases "ProductUpdateData.authorID data") (auto simp: apply_product_update_def)
  have "wf_store (s\<lparr>products := map ?f (products s)\<rparr>)"
    using assms
  proof (rule wf_store_products_map)
    show "\<And>r. Product.ID (?f r) = Product.ID r" by simp
    show "\<And>r. r \<in> set (products s) \<Longrightarrow> find_author (Product.authorID (?f r)) s \<noteq> None"
      using old new by simp
  qed
  then show ?thesis by (simp only: s)
qed

lemma wf_store_delete:
  assumes "wf_store s"
  shows "wf_store (snd (ProductQueryBuilder_delete ID' s))"
  using assms
  by (auto simp: ProductQueryBuilder_delete_def db_product_delete_def wf_store_def
      list_all_iff distinct_map_filter split: option.splits)

lemma wf_store_updateAuthorById:
  assumes "wf_store s"
  shows "wf_store (snd (updateAuthorById ID' author s))"
proof (cases "find_author ID' s")
  case None
  then show ?thesis using assms by (simp add: updateAuthorById_def db_author_update_def)
next
  case (Some a)
  let ?d = "\<lparr>AuthorUpdateInput.firstName = AuthorInput.firstName author,
             lastName = AuthorInput.lastName author\<rparr>"
  let ?f = "\<lambda>r. if Author.ID r = ID' then apply_author_update ?d (now s) r else r"
  have s: "snd (updateAuthorById ID' author s) = s\<lparr>authors := map ?f (authors s)\<rparr>"
    using Some by (simp add: updateAuthorById_def db_author_update_def Let_def)
  have "wf_store (s\<lparr>authors := map ?f (authors s)\<rparr>)"
    using assms by (rule wf_store_authors_map) simp
  then show ?thesis by (simp only: s)
qed

lemma wf_store_deleteAuthorById:
  assumes "wf_store s"
  shows "wf_store (snd (deleteAuthorById ID' s))"
proof (cases "find_author ID' s = None \<or> list_ex (\<lambda>p. Product.authorID p = ID') (products s)")
  case True
  then show ?thesis using assms
    by (auto simp: deleteAuthorById_def db_author_delete_def split: option.splits)
next
  case False
  let ?s = "s\<lparr>authors := filter (\<lambda>r. Author.ID r \<noteq> ID') (authors s)\<rparr>"
  have s: "snd (deleteAuthorById ID' s) = ?s"
    using False by (auto simp: deleteAuthorById_def db_author_delete_def split: option.splits)
  have n: "\<And>p. p \<in> set (products s) \<Longrightarrow> Product.authorID p \<noteq> ID'"
    using False by (auto simp: list_ex_iff)
  have f: "\<And>p. p \<in> set (products s) \<Longrightarrow>
      find_author (Product.authorID p) ?s = find_author (Product.authorID p) s"
    using n find_filter_other [of _ ID' Author.ID "authors s"] by (simp add: find_author_def)
  show ?thesis using assms unfolding s wf_store_def
    by (simp add: f list_all_iff distinct_map_filter)
qed

section \<open>Partial update\<close>

text \<open>
  C1. An update applies exactly the properties present in its input and leaves every
  other writable field at its stored value, for a product and for an author alike. The
  object that \<^verbatim>\<open>ProductQueryBuilder.update\<close> hands to the store holds exactly the properties
  present in the input, the date replaced by \<^verbatim>\<open>new Date\<close> of it. For a
  stored product \<open>p\<close> and an input whose \<open>authorID\<close>, if present, names an author,
  \<^verbatim>\<open>ProductQueryBuilder.update\<close> succeeds, and the stored row then holds, field by field, the
  input's value where the property is present (the date through \<^verbatim>\<open>new Date\<close>) and the value
  of \<open>p\<close> where it is absent; \<open>ID\<close> and \<open>createdAt\<close> stay. For a stored author \<open>a\<close>,
  \<^verbatim>\<open>updateAuthorById\<close> does the same with \<open>firstName\<close> and \<open>lastName\<close>. An absent
  property is \<open>None\<close>; the input types have no \<^verbatim>\<open>null\<close>, so absence is the only way to
  leave a field alone. The one update of a stored product that the store rejects, an
  \<open>authorID\<close> that names no author, writes nothing at all.
\<close>

theorem C1_update_applies_present_fields:
  "ProductQueryBuilder_update Date_parse pid data s =
     db_product_update pid
       \<lparr>ProductUpdateInput.title = ProductUpdateData.title data,
        isFiction = ProductUpdateData.isFiction data,
        datePublish = map_option (new_Date Date_parse) (ProductUpdateData.datePublish data),
        authorID = ProductUpdateData.authorID data\<rparr>
       selectFields s \<and>
   (find_product pid s = Some p \<and>
    (\<forall>a. ProductUpdateData.authorID data = Some a \<longrightarrow> find_author a s \<noteq> None) \<longrightarrow>
      (\<exists>v s' p'. ProductQueryBuilder_update Date_parse pid data s = (Inr v, s') \<and>
         find_product pid s' = Some p' \<and>
         Product.title p' =
           (case ProductUpdateData.title data of Some x \<Rightarrow> x | None \<Rightarrow> Product.title p) \<and>
         Product.isFiction p' =
           (case ProductUpdateData.isFiction data of Some x \<Rightarrow> x | None \<Rightarrow> Product.isFiction p) \<and>
         Product.datePublish p' =
           (case ProductUpdateData.datePublish data of
              Some x \<Rightarrow> new_Date Date_parse x | None \<Rightarrow> Product.datePublish p) \<and>
         Product.authorID p' =
           (case ProductUpdateData.authorID data of Some x \<Rightarrow> x | None \<Rightarrow> Product.authorID p) \<and>
         Product.ID p' = Product.ID p \<and>
         Product.createdAt p' = Product.createdAt p)) \<and>
   (find_author aid s = Some a \<longrightarrow>
      (\<exists>v s' a'. updateAuthorById aid author s = (Inr v, s') \<and>
         find_author aid s' = Some a' \<and>
         Author.firstName a' =
           (case AuthorInput.firstName author of Some x \<Rightarrow> x | None \<Rightarrow> Author.firstName a) \<and>
         Author.lastName a' =
           (case AuthorInput.lastName author of Some x \<Rightarrow> x | None \<Rightarrow> Author.lastName a) \<and>
         Author.ID a' = Author.ID a \<and>
         Author.createdAt a' = Author.createdAt a)) \<and>
   (find_product pid s = Some p \<and>
    ProductUpdateData.authorID data = Some x \<and> find_author x s = None \<longrightarrow>
      ProductQueryBuilder_update Date_parse pid data s = (Inl ReferentialIntegrityError, s))"
proof (intro conjI impI)
  show "ProductQueryBuilder_update Date_parse pid data s =
     db_product_update pid
       \<lparr>ProductUpdateInput.title = ProductUpdateData.title data,
        isFiction = ProductUpdateData.isFiction data,
        datePublish = map_option (new_Date Date_parse) (ProductUpdateData.datePublish data),
        authorID = ProductUpdateData.authorID data\<rparr>
       selectFields s"
    by (rule ProductQueryBuilder_update_data)
next
  assume h: "find_product pid s = Some p \<and>
    (\<forall>a. ProductUpdateData.authorID data = Some a \<longrightarrow> find_author a s \<noteq> None)"
  then obtain s' where
    r: "ProductQueryBuilder_update Date_parse pid data s
          = (Inr (ProductQueryBuilder_findById pid s'), s')"
    and f: "find_product pid s' =
            Some (p\<lparr>Product.title :=
                      (case ProductUpdateData.title data of Some v \<Rightarrow> v | None \<Rightarrow> Product.title p),
                    Product.isFiction :=
                      (case ProductUpdateData.isFiction data of Some v \<Rightarrow> v | None \<Rightarrow> Product.isFiction p),
                    Product.datePublish :=
                      (case ProductUpdateData.datePublish data of
                         Some v \<Rightarrow> new_Date Date_parse v | None \<Rightarrow> Product.datePublish p),
                    Product.authorID :=
                      (case ProductUpdateData.authorID data of Some v \<Rightarrow> v | None \<Rightarrow> Product.authorID p),
                    Product.updatedAt := ValidDate (now s)\<rparr>)"
    using ProductQueryBuilder_update_success [of pid s p data Date_parse] by blast
  show "\<exists>v s' p'. ProductQueryBuilder_update Date_parse pid data s = (Inr v, s') \<and>
         find_product pid s' = Some p' \<and>
         Product.title p' =
           (case ProductUpdateData.title data of Some x \<Rightarrow> x | None \<Rightarrow> Product.title p) \<and>
         Product.isFiction p' =
           (case ProductUpdateData.isFiction data of Some x \<Rightarrow> x | None \<Rightarrow> Product.isFiction p) \<and>
         Product.datePublish p' =
           (case ProductUpdateData.datePublish data of
              Some x \<Rightarrow> new_Date Date_parse x | None \<Rightarrow> Product.datePublish p) \<and>
         Product.authorID p' =
           (case ProductUpdateData.authorID data of Some x \<Rightarrow> x | None \<Rightarrow> Product.authorID p) \<and>
         Product.ID p' = Product.ID p \<and>
         Product.createdAt p' = Product.createdAt p"
    by (rule exI, rule exI, rule exI, intro conjI, rule r, rule f) simp_all
next
  assume h: "find_author aid s = Some a"
  then obtain s' where
    r: "updateAuthorById aid author s = (Inr (getAuthorById aid s'), s')"
    and f: "find_author aid s' =
            Some (a\<lparr>Author.firstName :=
                      (case AuthorInput.firstName author of Some v \<Rightarrow> v | None \<Rightarrow> Author.firstName a),
                    Author.lastName :=
                      (case AuthorInput.lastName author of Some v \<Rightarrow> v | None \<Rightarrow> Author.lastName a),
                    Author.updatedAt := ValidDate (now s)\<rparr>)"
    using updateAuthorById_success [of aid s a author] by blast
  show "\<exists>v s' a'. updateAuthorById aid author s = (Inr v, s') \<and>
         find_author aid s' = Some a' \<and>
         Author.firstName a' =
           (case AuthorInput.firstName author of Some x \<Rightarrow> x | None \<Rightarrow> Author.firstName a) \<and>
         Author.lastName a' =
           (case AuthorInput.lastName author of Some x \<Rightarrow> x | None \<Rightarrow> Author.lastName a) \<and>
         Author.ID a' = Author.ID a \<and>
         Author.createdAt a' = Author.createdAt a"
    by (rule exI, rule exI, rule exI, intro conjI, rule r, rule f) simp_all
next
  assume "find_product pid s = Some p \<and>
    ProductUpdateData.authorID data = Some x \<and> find_author x s = None"
  then show "ProductQueryBuilder_update Date_parse pid data s = (Inl ReferentialIntegrityError, s)"
    by (simp add: ProductQueryBuilder_update_data db_product_update_def)
qed

theorem C1_update_applies_present_fields_witness:
  "ProductQueryBuilder_update example_parse 1
     \<lparr>ProductUpdateData.title = Some ''Novel'', isFiction = None,
      datePublish = Some (DateString ''2024-01-01''), authorID = None\<rparr>
     example_store
   = db_product_update 1
       \<lparr>ProductUpdateInput.title = Some ''Novel'', isFiction = None,
        datePublish = Some (ValidDate 1704067200000), authorID = None\<rparr>
       selectFields example_store \<and>
   (\<exists>v s' p'.
      ProductQueryBuilder_update example_parse 1
        \<lparr>ProductUpdateData.title = Some ''Novel'', isFiction = None,
         datePublish = Some (DateString ''2024-01-01''), authorID = None\<rparr>
        example_store = (Inr v, s') \<and>
      find_product 1 s' = Some p' \<and>
      Product.title p' = ''Novel'' \<and> Product.isFiction p' = True \<and>
      Product.datePublish p' = ValidDate 1704067200000 \<and> Product.authorID p' = 1 \<and>
      Product.ID p' = 1 \<and> Product.createdAt p' = ValidDate 200) \<and>
   (\<exists>v s' a'.
      updateAuthorById 1
        \<lparr>AuthorInput.firstName = None, lastName = Some ''Roe'', createdAt = None, updatedAt = None\<rparr>
        example_store = (Inr v, s') \<and>
      find_author 1 s' = Some a' \<and>
      Author.firstName a' = ''Jane'' \<and> Author.lastName a' = ''Roe'' \<and>
      Author.ID a' = 1 \<and> Author.createdAt a' = ValidDate 100) \<and>
   find_author 9 example_store = None \<and>
   ProductQueryBuilder_update example_parse 1
     \<lparr>ProductUpdateData.title = Some ''Novel'', isFiction = None,
      datePublish = None, authorID = Some 9\<rparr>
     example_store = (Inl ReferentialIntegrityError, example_store)"
proof -
  let ?p = "\<lparr>Product.ID = 1, title = ''Book'', isFiction = True, datePublish = ValidDate 1000,
             authorID = 1, createdAt = ValidDate 200, updatedAt = ValidDate 200\<rparr>"
  let ?a = "\<lparr>Author.ID = 1, firstName = ''Jane'', lastName = ''Doe'',
             createdAt = ValidDate 100, updatedAt = ValidDate 100\<rparr>"
  let ?author = "\<lparr>AuthorInput.firstName = None, lastName = Some ''Roe'',
                  createdAt = None, updatedAt = None\<rparr>"
  let ?good = "\<lparr>ProductUpdateData.title = Some ''Novel'', isFiction = None,
                datePublish = Some (DateString ''2024-01-01''), authorID = None\<rparr>"
  let ?bad = "\<lparr>ProductUpdateData.title = Some ''Novel'', isFiction = None,
               datePublish = None, authorID = Some 9\<rparr>"
  note good = C1_update_applies_present_fields
      [of example_parse 1 ?good example_store ?p 1 ?a ?author 9]
  note bad = C1_update_applies_present_fields
      [of example_parse 1 ?bad example_store ?p 1 ?a ?author 9]
  have n: "find_author 9 example_store = None"
    by (simp add: find_author_def example_store_def)
  have passed:
    "ProductQueryBuilder_update example_parse 1 ?good example_store
     = db_product_update 1
         \<lparr>ProductUpdateInput.title = Some ''Novel'', isFiction = None,
          datePublish = Some (ValidDate 1704067200000), authorID = None\<rparr>
         selectFields example_store"
    using good [THEN conjunct1] by (simp add: new_Date_def example_parse_def)
  have product:
    "\<exists>v s' p'.
        ProductQueryBuilder_update example_parse 1 ?good example_store = (Inr v, s') \<and>
        find_product 1 s' = Some p' \<and>
        Product.title p' = ''Novel'' \<and> Product.isFiction p' = True \<and>
        Product.datePublish p' = ValidDate 1704067200000 \<and> Product.authorID p' = 1 \<and>
        Product.ID p' = 1 \<and> Product.createdAt p' = ValidDate 200"
    using good [THEN conjunct2, THEN conjunct1]
    by (simp add: example_find_product new_Date_def example_parse_def)
  have author:
    "\<exists>v s' a'.
        updateAuthorById 1 ?author example_store = (Inr v, s') \<and>
        find_author 1 s' = Some a' \<and>
        Author.firstName a' = ''Jane'' \<and> Author.lastName a' = ''Roe'' \<and>
        Author.ID a' = 1 \<and> Author.createdAt a' = ValidDate 100"
    using good [THEN conjunct2, THEN conjunct2, THEN conjunct1]
    by (simp add: example_find_author)
  have rejected:
    "ProductQueryBuilder_update example_parse 1 ?bad example_store
     = (Inl ReferentialIntegrityError, example_store)"
    using bad [THEN conjunct2, THEN conjunct2, THEN conjunct2]
    by (simp add: example_find_product n)
  show ?thesis
    by (intro conjI; (rule passed product author n rejected))
qed

text \<open>
  C6. The empty update: \<^verbatim>\<open>update(id, {})\<close> hands the store an object without properties;
  on a stored product it succeeds and leaves the stored record as it was except for
  \<open>updatedAt\<close>, and so does \<^verbatim>\<open>updateAuthorById\<close> with the empty object on a stored author.
\<close>

theorem C6_empty_update_keeps_fields:
  "ProductQueryBuilder_update Date_parse pid
     \<lparr>ProductUpdateData.title = None, isFiction = None,
      datePublish = None, authorID = None\<rparr> s
   = db_product_update pid
       \<lparr>ProductUpdateInput.title = None, isFiction = None,
        datePublish = None, authorID = None\<rparr>
       selectFields s \<and>
   (find_product pid s = Some p \<longrightarrow>
      (\<exists>v s'. ProductQueryBuilder_update Date_parse pid
                 \<lparr>ProductUpdateData.title = None, isFiction = None,
                  datePublish = None, authorID = None\<rparr> s = (Inr v, s') \<and>
         find_product pid s' = Some (p\<lparr>Product.updatedAt := ValidDate (now s)\<rparr>))) \<and>
   (find_author aid s = Some a \<longrightarrow>
      (\<exists>v s'. updateAuthorById aid
                 \<lparr>AuthorInput.firstName = None, lastName = None,
                  createdAt = None, updatedAt = None\<rparr> s = (Inr v, s') \<and>
         find_author aid s' = Some (a\<lparr>Author.updatedAt := ValidDate (now s)\<rparr>)))"
proof (intro conjI impI)
  show "ProductQueryBuilder_update Date_parse pid
     \<lparr>ProductUpdateData.title = None, isFiction = None,
      datePublish = None, authorID = None\<rparr> s
   = db_product_update pid
       \<lparr>ProductUpdateInput.title = None, isFiction = None,
        datePublish = None, authorID = None\<rparr>
       selectFields s"
    by (simp add: ProductQueryBuilder_update_data)
next
  assume "find_product pid s = Some p"
  then show "\<exists>v s'. ProductQueryBuilder_update Date_parse pid
                 \<lparr>ProductUpdateData.title = None, isFiction = None,
                  datePublish = None, authorID = None\<rparr> s = (Inr v, s') \<and>
         find_product pid s' = Some (p\<lparr>Product.updatedAt := ValidDate (now s)\<rparr>)"
    using ProductQueryBuilder_update_success
      [of pid s p "\<lparr>ProductUpdateData.title = None, isFiction = None,
                     datePublish = None, authorID = None\<rparr>" Date_parse]
    by auto
next
  assume "find_author aid s = Some a"
  then show "\<exists>v s'. updateAuthorById aid
                 \<lparr>AuthorInput.firstName = None, lastName = None,
                  createdAt = None, updatedAt = None\<rparr> s = (Inr v, s') \<and>
         find_author aid s' = Some (a\<lparr>Author.updatedAt := ValidDate (now s)\<rparr>)"
    using updateAuthorById_success
      [of aid s a "\<lparr>AuthorInput.firstName = None, lastName = None,
                     createdAt = None, updatedAt = None\<rparr>"]
    by auto
qed

theorem C6_empty_update_keeps_fields_witness:
  "(\<exists>v s'. ProductQueryBuilder_update example_parse 1
              \<lparr>ProductUpdateData.title = None, isFiction = None,
               datePublish = None, authorID = None\<rparr> example_store = (Inr v, s') \<and>
      find_product 1 s' =
        Some \<lparr>Product.ID = 1, title = ''Book'', isFiction = True, datePublish = ValidDate 1000,
              authorID = 1, createdAt = ValidDate 200, updatedAt = ValidDate 300\<rparr>) \<and>
   (\<exists>v s'. updateAuthorById 1
              \<lparr>AuthorInput.firstName = None, lastName = None,
               createdAt = None, updatedAt = None\<rparr> example_store = (Inr v, s') \<and>
      find_author 1 s' =
        Some \<lparr>Author.ID = 1, firstName = ''Jane'', lastName = ''Doe'',
              createdAt = ValidDate 100, updatedAt = ValidDate 300\<rparr>)"
proof -
  note inst = C6_empty_update_keeps_fields
    [of example_parse 1 example_store
        "\<lparr>Product.ID = 1, title = ''Book'', isFiction = True, datePublish = ValidDate 1000,
          authorID = 1, createdAt = ValidDate 200, updatedAt = ValidDate 200\<rparr>"
        1
        "\<lparr>Author.ID = 1, firstName = ''Jane'', lastName = ''Doe'',
          createdAt = ValidDate 100, updatedAt = ValidDate 100\<rparr>"]
  have t: "now example_store = 300" by (simp add: example_store_def)
  have product:
    "\<exists>v s'. ProductQueryBuilder_update example_parse 1
              \<lparr>ProductUpdateData.title = None, isFiction = None,
               datePublish = None, authorID = None\<rparr> example_store = (Inr v, s') \<and>
      find_product 1 s' =
        Some \<lparr>Product.ID = 1, title = ''Book'', isFiction = True, datePublish = ValidDate 1000,
              authorID = 1, createdAt = ValidDate 200, updatedAt = ValidDate 300\<rparr>"
    using inst [THEN conjunct2, THEN conjunct1] by (simp add: example_find_product t)
  have author:
    "\<exists>v s'. updateAuthorById 1
              \<lparr>AuthorInput.firstName = None, lastName = None,
               createdAt = None, updatedAt = None\<rparr> example_store = (Inr v, s') \<and>
      find_author 1 s' =
        Some \<lparr>Author.ID = 1, firstName = ''Jane'', lastName = ''Doe'',
              createdAt = ValidDate 100, updatedAt = ValidDate 300\<rparr>"
    using inst [THEN conjunct2, THEN conjunct2] by (simp add: example_find_author t)
  show ?thesis by (intro conjI; (rule product author))
qed

section \<open>Date normalisation\<close>

text \<open>
  C7. A \<open>datePublish\<close> given as a string that \<^verbatim>\<open>Date.parse\<close> accepts reaches the store
  as the parsed date: the \<^verbatim>\<open>data\<close> object that \<^verbatim>\<open>create\<close> and \<^verbatim>\<open>update\<close> pass on
  carries \<open>ValidDate t\<close>. It is then stored as that date, and a later \<^verbatim>\<open>findById\<close> reads
  that date (a \<open>JDate\<close>, not the \<open>JStr\<close> of the input): on a create whose author exists,
  in a store that satisfies its invariant, and on an update of a stored product whose
  \<open>authorID\<close>, if present, names an author.
\<close>

theorem C7_datePublish_normalised:
  "(ProductCreateData.datePublish cdata = DateString str \<and> Date_parse str = Some t \<longrightarrow>
      ProductQueryBuilder_create Date_parse cdata s =
        db_product_create
          \<lparr>ProductWrite.title = ProductCreateData.title cdata,
           isFiction = ProductCreateData.isFiction cdata,
           datePublish = ValidDate t,
           authorID = ProductCreateData.authorID cdata\<rparr>
          selectFields s) \<and>
   (ProductUpdateData.datePublish udata = Some (DateString str) \<and> Date_parse str = Some t \<longrightarrow>
      ProductQueryBuilder_update Date_parse pid udata s =
        db_product_update pid
          \<lparr>ProductUpdateInput.title = ProductUpdateData.title udata,
           isFiction = ProductUpdateData.isFiction udata,
           datePublish = Some (ValidDate t),
           authorID = ProductUpdateData.authorID udata\<rparr>
          selectFields s) \<and>
   (ProductCreateData.datePublish cdata = DateString str \<and> Date_parse str = Some t \<and>
    find_author (ProductCreateData.authorID cdata) s \<noteq> None \<and> wf_store s \<longrightarrow>
      (\<exists>v s' p'. ProductQueryBuilder_create Date_parse cdata s = (Inr v, s') \<and>
         find_product (nextProductID s) s' = Some p' \<and>
         Product.datePublish p' = ValidDate t \<and>
         obj_get v ''datePublish'' = JDate (ValidDate t) \<and>
         obj_get (ProductQueryBuilder_findById (nextProductID s) s') ''datePublish''
           = JDate (ValidDate t))) \<and>
   (ProductUpdateData.datePublish udata = Some (DateString str) \<and> Date_parse str = Some t \<and>
    find_product pid s = Some p \<and>
    (\<forall>a. ProductUpdateData.authorID udata = Some a \<longrightarrow> find_author a s \<noteq> None) \<longrightarrow>
      (\<exists>v s' p'. ProductQueryBuilder_update Date_parse pid udata s = (Inr v, s') \<and>
         find_product pid s' = Some p' \<and>
         Product.datePublish p' = ValidDate t \<and>
         obj_get v ''datePublish'' = JDate (ValidDate t) \<and>
         obj_get (ProductQueryBuilder_findById pid s') ''datePublish'' = JDate (ValidDate t)))"
proof (intro conjI impI)
  assume "ProductCreateData.datePublish cdata = DateString str \<and> Date_parse str = Some t"
  then show "ProductQueryBuilder_create Date_parse cdata s =
        db_product_create
          \<lparr>ProductWrite.title = ProductCreateData.title cdata,
           isFiction = ProductCreateData.isFiction cdata,
           datePublish = ValidDate t,
           authorID = ProductCreateData.authorID cdata\<rparr>
          selectFields s"
    by (simp add: ProductQueryBuilder_create_def new_Date_def)
next
  assume "ProductUpdateData.datePublish udata = Some (DateString str) \<and> Date_parse str = Some t"
  then show "ProductQueryBuilder_update Date_parse pid udata s =
        db_product_update pid
          \<lparr>ProductUpdateInput.title = ProductUpdateData.title udata,
           isFiction = ProductUpdateData.isFiction udata,
           datePublish = Some (ValidDate t),
           authorID = ProductUpdateData.authorID udata\<rparr>
          selectFields s"
    by (simp add: ProductQueryBuilder_update_data new_Date_def)
next
  assume h: "ProductCreateData.datePublish cdata = DateString str \<and> Date_parse str = Some t \<and>
    find_author (ProductCreateData.authorID cdata) s \<noteq> None \<and> wf_store s"
  let ?p = "\<lparr>Product.ID = nextProductID s,
             title = ProductCreateData.title cdata,
             isFiction = ProductCreateData.isFiction cdata,
             datePublish = new_Date Date_parse (ProductCreateData.datePublish cdata),
             authorID = ProductCreateData.authorID cdata,
             createdAt = ValidDate (now s),
             updatedAt = ValidDate (now s)\<rparr>"
  let ?s = "s\<lparr>products := products s @ [?p], nextProductID := nextProductID s + 1\<rparr>"
  from h obtain a where a: "find_author (ProductCreateData.authorID cdata) s = Some a" by auto
  have r: "ProductQueryBuilder_create Date_parse cdata s
             = (Inr (JObj (select_product ?s selectFields ?p)), ?s)"
    using ProductQueryBuilder_create_success [OF a, of Date_parse] by (simp add: Let_def)
  have fresh: "list_all (\<lambda>r. Product.ID r < nextProductID s) (products s)"
    using h by (simp add: wf_store_def)
  have f: "find_product (nextProductID s) ?s = Some ?p"
    using find_snoc_fresh [OF fresh, of ?p] by (simp add: find_product_def)
  have d: "Product.datePublish ?p = ValidDate t" using h by (simp add: new_Date_def)
  have g: "ProductQueryBuilder_findById (nextProductID s) ?s
             = JObj (select_product ?s selectFields ?p)"
    using f by (simp add: ProductQueryBuilder_findById_def db_product_findUnique_def)
  have o: "obj_get (JObj (select_product ?s selectFields ?p)) ''datePublish'' = JDate (ValidDate t)"
    using d by (simp only: obj_get_datePublish)
  show "\<exists>v s' p'. ProductQueryBuilder_create Date_parse cdata s = (Inr v, s') \<and>
         find_product (nextProductID s) s' = Some p' \<and>
         Product.datePublish p' = ValidDate t \<and>
         obj_get v ''datePublish'' = JDate (ValidDate t) \<and>
         obj_get (ProductQueryBuilder_findById (nextProductID s) s') ''datePublish''
           = JDate (ValidDate t)"
    using r f d o g by (intro exI [of _ "JObj (select_product ?s selectFields ?p)"] exI [of _ ?s] exI [of _ ?p]) (simp only: simp_thms)
next
  assume h: "ProductUpdateData.datePublish udata = Some (DateString str) \<and> Date_parse str = Some t \<and>
    find_product pid s = Some p \<and>
    (\<forall>a. ProductUpdateData.authorID udata = Some a \<longrightarrow> find_author a s \<noteq> None)"
  then obtain s' where
    r: "ProductQueryBuilder_update Date_parse pid udata s
          = (Inr (ProductQueryBuilder_findById pid s'), s')"
    and f: "find_product pid s' =
            Some (p\<lparr>Product.title :=
                      (case ProductUpdateData.title udata of Some v \<Rightarrow> v | None \<Rightarrow> Product.title p),
                    Product.isFiction :=
                      (case ProductUpdateData.isFiction udata of Some v \<Rightarrow> v | None \<Rightarrow> Product.isFiction p),
                    Product.datePublish :=
                      (case ProductUpdateData.datePublish udata of
                         Some v \<Rightarrow> new_Date Date_parse v | None \<Rightarrow> Product.datePublish p),
                    Product.authorID :=
                      (case ProductUpdateData.authorID udata of Some v \<Rightarrow> v | None \<Rightarrow> Product.authorID p),
                    Product.updatedAt := ValidDate (now s)\<rparr>)"
      (is "_ = Some ?p")
    using ProductQueryBuilder_update_success [of pid s p udata Date_parse] by blast
  have d: "Product.datePublish ?p = ValidDate t" using h by (simp add: new_Date_def)
  have g: "ProductQueryBuilder_findById pid s' = JObj (select_product s' selectFields ?p)"
    using f by (simp add: ProductQueryBuilder_findById_def db_product_findUnique_def)
  have o: "obj_get (ProductQueryBuilder_findById pid s') ''datePublish'' = JDate (ValidDate t)"
    using d by (simp only: g obj_get_datePublish)
  show "\<exists>v s' p'. ProductQueryBuilder_update Date_parse pid udata s = (Inr v, s') \<and>
         find_product pid s' = Some p' \<and>
         Product.datePublish p' = ValidDate t \<and>
         obj_get v ''datePublish'' = JDate (ValidDate t) \<and>
         obj_get (ProductQueryBuilder_findById pid s') ''datePublish'' = JDate (ValidDate t)"
    using r f d o by (intro exI [of _ "ProductQueryBuilder_findById pid s'"] exI [of _ s'] exI [of _ ?p]) (simp only: simp_thms)
qed

theorem C7_datePublish_normalised_witness:
  "wf_store example_store \<and>
   ProductQueryBuilder_create example_parse
     \<lparr>ProductCreateData.title = ''Book two'', isFiction = False,
      datePublish = DateString ''2024-01-01'', authorID = 1\<rparr> example_store
   = db_product_create
       \<lparr>ProductWrite.title = ''Book two'', isFiction = False,
        datePublish = ValidDate 1704067200000, authorID = 1\<rparr>
       selectFields example_store \<and>
   ProductQueryBuilder_update example_parse 1
     \<lparr>ProductUpdateData.title = None, isFiction = None,
      datePublish = Some (DateString ''2024-01-01''), authorID = None\<rparr> example_store
   = db_product_update 1
       \<lparr>ProductUpdateInput.title = None, isFiction = None,
        datePublish = Some (ValidDate 1704067200000), authorID = None\<rparr>
       selectFields example_store \<and>
   (\<exists>v s' p'.
      ProductQueryBuilder_create example_parse
        \<lparr>ProductCreateData.title = ''Book two'', isFiction = False,
         datePublish = DateString ''2024-01-01'', authorID = 1\<rparr> example_store = (Inr v, s') \<and>
      find_product 2 s' = Some p' \<and>
      Product.datePublish p' = ValidDate 1704067200000 \<and>
      obj_get v ''datePublish'' = JDate (ValidDate 1704067200000) \<and>
      obj_get (ProductQueryBuilder_findById 2 s') ''datePublish''
        = JDate (ValidDate 1704067200000)) \<and>
   (\<exists>v s' p'.
      ProductQueryBuilder_update example_parse 1
        \<lparr>ProductUpdateData.title = None, isFiction = None,
         datePublish = Some (DateString ''2024-01-01''), authorID = None\<rparr>
        example_store = (Inr v, s') \<and>
      find_product 1 s' = Some p' \<and>
      Product.datePublish p' = ValidDate 1704067200000 \<and>
      obj_get v ''datePublish'' = JDate (ValidDate 1704067200000) \<and>
      obj_get (ProductQueryBuilder_findById 1 s') ''datePublish''
        = JDate (ValidDate 1704067200000))"
proof -
  have n: "nextProductID example_store = 2" by (simp add: example_store_def)
  note inst = C7_datePublish_normalised
      [of "\<lparr>ProductCreateData.title = ''Book two'', isFiction = False,
            datePublish = DateString ''2024-01-01'', authorID = 1\<rparr>"
          "''2024-01-01''" example_parse 1704067200000 example_store
          "\<lparr>ProductUpdateData.title = None, isFiction = None,
            datePublish = Some (DateString ''2024-01-01''), authorID = None\<rparr>"
          1
          "\<lparr>Product.ID = 1, title = ''Book'', isFiction = True, datePublish = ValidDate 1000,
            authorID = 1, createdAt = ValidDate 200, updatedAt = ValidDate 200\<rparr>"]
  have passed_create:
    "ProductQueryBuilder_create example_parse
       \<lparr>ProductCreateData.title = ''Book two'', isFiction = False,
        datePublish = DateString ''2024-01-01'', authorID = 1\<rparr> example_store
     = db_product_create
         \<lparr>ProductWrite.title = ''Book two'', isFiction = False,
          datePublish = ValidDate 1704067200000, authorID = 1\<rparr>
         selectFields example_store"
    using inst [THEN conjunct1] by (simp add: example_parse_def)
  have passed_update:
    "ProductQueryBuilder_update example_parse 1
       \<lparr>ProductUpdateData.title = None, isFiction = None,
        datePublish = Some (DateString ''2024-01-01''), authorID = None\<rparr> example_store
     = db_product_update 1
         \<lparr>ProductUpdateInput.title = None, isFiction = None,
          datePublish = Some (ValidDate 1704067200000), authorID = None\<rparr>
         selectFields example_store"
    using inst [THEN conjunct2, THEN conjunct1] by (simp add: example_parse_def)
  have stored_create:
    "\<exists>v s' p'.
      ProductQueryBuilder_create example_parse
        \<lparr>ProductCreateData.title = ''Book two'', isFiction = False,
         datePublish = DateString ''2024-01-01'', authorID = 1\<rparr> example_store = (Inr v, s') \<and>
      find_product 2 s' = Some p' \<and>
      Product.datePublish p' = ValidDate 1704067200000 \<and>
      obj_get v ''datePublish'' = JDate (ValidDate 1704067200000) \<and>
      obj_get (ProductQueryBuilder_findById 2 s') ''datePublish''
        = JDate (ValidDate 1704067200000)"
    using inst [THEN conjunct2, THEN conjunct2, THEN conjunct1]
    by (simp add: example_find_author example_wf example_parse_def n)
  have stored_update:
    "\<exists>v s' p'.
      ProductQueryBuilder_update example_parse 1
        \<lparr>ProductUpdateData.title = None, isFiction = None,
         datePublish = Some (DateString ''2024-01-01''), authorID = None\<rparr>
        example_store = (Inr v, s') \<and>
      find_product 1 s' = Some p' \<and>
      Product.datePublish p' = ValidDate 1704067200000 \<and>
      obj_get v ''datePublish'' = JDate (ValidDate 1704067200000) \<and>
      obj_get (ProductQueryBuilder_findById 1 s') ''datePublish''
        = JDate (ValidDate 1704067200000)"
    using inst [THEN conjunct2, THEN conjunct2, THEN conjunct2]
    by (simp add: example_find_product example_parse_def)
  show ?thesis
    by (intro conjI; (rule example_wf passed_create passed_update stored_create stored_update))
qed

section \<open>The read projection\<close>

text \<open>
  C2. In a store that satisfies its invariant, every product that \<^verbatim>\<open>findAll\<close>,
  \<^verbatim>\<open>findById\<close>, \<^verbatim>\<open>create\<close> and \<^verbatim>\<open>update\<close> return has the fixed projection: the seven
  selected properties, the nested author with exactly \<open>ID\<close>, \<open>firstName\<close>, \<open>lastName\<close>,
  \<open>createdAt\<close>, \<open>updatedAt\<close>, no product list under the author and no bare
  \<open>authorID\<close>. (\<^verbatim>\<open>findById\<close> returns \<^verbatim>\<open>null\<close> or such a product.)
\<close>

theorem C2_fixed_projection:
  assumes "wf_store s"
  shows "list_all fixed_projection (ProductQueryBuilder_findAll s) \<and>
         (ProductQueryBuilder_findById ID' s = JNull \<or>
          fixed_projection (ProductQueryBuilder_findById ID' s)) \<and>
         (\<forall>v s'. ProductQueryBuilder_create Date_parse cdata s = (Inr v, s') \<longrightarrow>
                    fixed_projection v) \<and>
         (\<forall>v s'. ProductQueryBuilder_update Date_parse ID' udata s = (Inr v, s') \<longrightarrow>
                    fixed_projection v)"
proof (intro conjI allI impI)
  show "list_all fixed_projection (ProductQueryBuilder_findAll s)"
    using assms
    by (simp add: ProductQueryBuilder_findAll_def db_product_findMany_def list_all_iff
        fixed_projection_select wf_store_reference)
next
  show "ProductQueryBuilder_findById ID' s = JNull \<or>
        fixed_projection (ProductQueryBuilder_findById ID' s)"
  proof (cases "find_product ID' s")
    case None
    then show ?thesis
      by (simp add: ProductQueryBuilder_findById_def db_product_findUnique_def)
  next
    case (Some p)
    then have "find_author (Product.authorID p) s \<noteq> None"
      using assms by (intro wf_store_reference find_product_in_set)
    then show ?thesis using Some
      by (simp add: ProductQueryBuilder_findById_def db_product_findUnique_def
          fixed_projection_select)
  qed
next
  fix v s'
  assume r: "ProductQueryBuilder_create Date_parse cdata s = (Inr v, s')"
  show "fixed_projection v"
  proof (cases "find_author (ProductCreateData.authorID cdata) s")
    case None
    then show ?thesis using r
      by (simp add: ProductQueryBuilder_create_def db_product_create_def)
  next
    case (Some a)
    have "v = JObj (select_product s' selectFields
                \<lparr>Product.ID = nextProductID s,
                 title = ProductCreateData.title cdata,
                 isFiction = ProductCreateData.isFiction cdata,
                 datePublish = new_Date Date_parse (ProductCreateData.datePublish cdata),
                 authorID = ProductCreateData.authorID cdata,
                 createdAt = ValidDate (now s),
                 updatedAt = ValidDate (now s)\<rparr>)"
      and "authors s' = authors s"
      using r ProductQueryBuilder_create_success [OF Some, of Date_parse]
      by (auto simp: Let_def)
    then show ?thesis using Some
      by (simp add: fixed_projection_select find_author_def)
  qed
next
  fix v s'
  assume r: "ProductQueryBuilder_update Date_parse ID' udata s = (Inr v, s')"
  show "fixed_projection v"
  proof (cases "find_product ID' s")
    case None
    then show ?thesis using r
      by (simp add: ProductQueryBuilder_update_data db_product_update_def)
  next
    case (Some p)
    have ok: "\<And>a. ProductUpdateData.authorID udata = Some a \<Longrightarrow> find_author a s \<noteq> None"
      using r Some
      by (auto simp: ProductQueryBuilder_update_data db_product_update_def split: if_splits)
    obtain s2 where
      r2: "ProductQueryBuilder_update Date_parse ID' udata s
            = (Inr (ProductQueryBuilder_findById ID' s2), s2)"
      and a2: "authors s2 = authors s"
      and f2: "find_product ID' s2 =
            Some (p\<lparr>Product.title :=
                      (case ProductUpdateData.title udata of Some v \<Rightarrow> v | None \<Rightarrow> Product.title p),
                    Product.isFiction :=
                      (case ProductUpdateData.isFiction udata of Some v \<Rightarrow> v | None \<Rightarrow> Product.isFiction p),
                    Product.datePublish :=
                      (case ProductUpdateData.datePublish udata of
                         Some v \<Rightarrow> new_Date Date_parse v | None \<Rightarrow> Product.datePublish p),
                    Product.authorID :=
                      (case ProductUpdateData.authorID udata of Some v \<Rightarrow> v | None \<Rightarrow> Product.authorID p),
                    Product.updatedAt := ValidDate (now s)\<rparr>)"
        (is "_ = Some ?p")
      using ProductQueryBuilder_update_success [of ID' s p udata Date_parse, OF Some ok] by blast
    have old: "find_author (Product.authorID p) s \<noteq> None"
      using assms Some by (intro wf_store_reference find_product_in_set)
    have "find_author (Product.authorID ?p) s \<noteq> None"
      using ok old by (cases "ProductUpdateData.authorID udata") auto
    then have "find_author (Product.authorID ?p) s2 \<noteq> None"
      using a2 by (simp add: find_author_def)
    then have "fixed_projection (JObj (select_product s2 selectFields ?p))"
      by (rule fixed_projection_select)
    moreover have "ProductQueryBuilder_findById ID' s2 = JObj (select_product s2 selectFields ?p)"
      using f2 by (simp add: ProductQueryBuilder_findById_def db_product_findUnique_def)
    moreover have "v = ProductQueryBuilder_findById ID' s2"
      using r r2 by auto
    ultimately show ?thesis by simp
  qed
qed

theorem C2_fixed_projection_witness:
  "wf_store example_store \<and>
   list_all fixed_projection (ProductQueryBuilder_findAll example_store) \<and>
   ProductQueryBuilder_findAll example_store \<noteq> [] \<and>
   fixed_projection (ProductQueryBuilder_findById 1 example_store) \<and>
   (\<exists>v s'. ProductQueryBuilder_create example_parse
              \<lparr>ProductCreateData.title = ''Book two'', isFiction = False,
               datePublish = DateString ''2024-01-01'', authorID = 1\<rparr> example_store = (Inr v, s') \<and>
            fixed_projection v) \<and>
   (\<exists>v s'. ProductQueryBuilder_update example_parse 1
              \<lparr>ProductUpdateData.title = Some ''Novel'', isFiction = None,
               datePublish = None, authorID = Some 1\<rparr> example_store = (Inr v, s') \<and>
            fixed_projection v)"
proof -
  let ?c = "\<lparr>ProductCreateData.title = ''Book two'', isFiction = False,
             datePublish = DateString ''2024-01-01'', authorID = 1\<rparr>"
  let ?u = "\<lparr>ProductUpdateData.title = Some ''Novel'', isFiction = None,
             datePublish = None, authorID = Some 1\<rparr>"
  have c: "\<exists>v s'. ProductQueryBuilder_create example_parse ?c example_store = (Inr v, s')"
    using ProductQueryBuilder_create_success [of ?c example_store _ example_parse]
    by (simp add: example_find_author Let_def)
  have u: "\<exists>v s'. ProductQueryBuilder_update example_parse 1 ?u example_store = (Inr v, s')"
    using ProductQueryBuilder_update_success [of 1 example_store _ ?u example_parse]
    by (auto simp: example_find_product example_find_author)
  have n: "ProductQueryBuilder_findById 1 example_store \<noteq> JNull"
    by (simp add: ProductQueryBuilder_findById_def db_product_findUnique_def example_find_product)
  have a: "ProductQueryBuilder_findAll example_store \<noteq> []"
    by (simp add: ProductQueryBuilder_findAll_def db_product_findMany_def example_store_def)
  show ?thesis
    using C2_fixed_projection [OF example_wf, of 1 example_parse ?c ?u] c u n a example_wf
    by blast
qed

section \<open>Failures\<close>

text \<open>
  C3 (as amended). When \<open>authorID\<close> names no author, a create fails with
  \<open>ReferentialIntegrityError\<close>, and so does an update of a stored product; the store is
  unchanged in both cases. An update whose identifier names no product fails with
  \<open>NotFoundError\<close> instead, the store unchanged as well.
\<close>

theorem C3_missing_author_rejected:
  assumes "find_author a s = None"
  shows "(ProductCreateData.authorID cdata = a \<longrightarrow>
            ProductQueryBuilder_create Date_parse cdata s = (Inl ReferentialIntegrityError, s)) \<and>
         (ProductUpdateData.authorID udata = Some a \<and> find_product ID' s \<noteq> None \<longrightarrow>
            ProductQueryBuilder_update Date_parse ID' udata s = (Inl ReferentialIntegrityError, s)) \<and>
         (ProductUpdateData.authorID udata = Some a \<and> find_product ID' s = None \<longrightarrow>
            ProductQueryBuilder_update Date_parse ID' udata s = (Inl NotFoundError, s))"
  using assms
  by (auto simp: ProductQueryBuilder_create_def db_product_create_def
      ProductQueryBuilder_update_data db_product_update_def)

theorem C3_missing_author_rejected_witness:
  "find_author 9 example_store = None \<and>
   ProductQueryBuilder_create example_parse
     \<lparr>ProductCreateData.title = ''Orphan'', isFiction = False,
      datePublish = DateString ''2024-01-01'', authorID = 9\<rparr> example_store
     = (Inl ReferentialIntegrityError, example_store) \<and>
   find_product 1 example_store \<noteq> None \<and>
   ProductQueryBuilder_update example_parse 1
     \<lparr>ProductUpdateData.title = Some ''Orphan'', isFiction = None,
      datePublish = None, authorID = Some 9\<rparr> example_store
     = (Inl ReferentialIntegrityError, example_store) \<and>
   find_product 7 example_store = None \<and>
   ProductQueryBuilder_update example_parse 7
     \<lparr>ProductUpdateData.title = Some ''Orphan'', isFiction = None,
      datePublish = None, authorID = Some 9\<rparr> example_store
     = (Inl NotFoundError, example_store)"
proof -
  let ?c = "\<lparr>ProductCreateData.title = ''Orphan'', isFiction = False,
             datePublish = DateString ''2024-01-01'', authorID = 9\<rparr>"
  let ?u = "\<lparr>ProductUpdateData.title = Some ''Orphan'', isFiction = None,
             datePublish = None, authorID = Some 9\<rparr>"
  have n: "find_author 9 example_store = None"
    by (simp add: find_author_def example_store_def)
  have m: "find_product 7 example_store = None"
    by (simp add: find_product_def example_store_def)
  show ?thesis
    using C3_missing_author_rejected [OF n, of ?c example_parse ?u 1]
      C3_missing_author_rejected [OF n, of ?c example_parse ?u 7]
    by (simp add: n m example_find_product)
qed

text \<open>
  C3 (as stated) fails for an update that names neither a stored product nor an existing
  author: the missing product is reported first, as \<open>NotFoundError\<close>.
\<close>

theorem C3_update_absent_id_counterexample:
  "find_author 9 example_store = None \<and>
   ProductQueryBuilder_update example_parse 7
     \<lparr>ProductUpdateData.title = None, isFiction = None,
      datePublish = None, authorID = Some 9\<rparr> example_store
     = (Inl NotFoundError, example_store)"
  by (simp add: ProductQueryBuilder_update_data db_product_update_def find_product_def
      find_author_def example_store_def)

text \<open>
  C4. Deleting an author whom a product still references fails with
  \<open>ReferentialIntegrityError\<close> and leaves the store, hence the author and the products,
  as it was; and no delete of an author, failed or not, changes the product table.
\<close>

theorem C4_author_delete_restricted:
  "(find_author ID' s \<noteq> None \<and> list_ex (\<lambda>p. Product.authorID p = ID') (products s) \<longrightarrow>
      deleteAuthorById ID' s = (Inl ReferentialIntegrityError, s)) \<and>
   products (snd (deleteAuthorById ID' s)) = products s"
  by (auto simp: deleteAuthorById_def db_author_delete_def split: option.split)

theorem C4_author_delete_restricted_witness:
  "find_author 1 example_store \<noteq> None \<and>
   list_ex (\<lambda>p. Product.authorID p = 1) (products example_store) \<and>
   deleteAuthorById 1 example_store = (Inl ReferentialIntegrityError, example_store) \<and>
   products (snd (deleteAuthorById 1 example_store)) = products example_store"
proof -
  have l: "list_ex (\<lambda>p. Product.authorID p = 1) (products example_store)"
    by (simp add: example_store_def)
  show ?thesis
    using C4_author_delete_restricted [of 1 example_store] l
    by (simp add: example_find_author)
qed

text \<open>
  C5. For an identifier that names no record, \<^verbatim>\<open>findById\<close> and \<^verbatim>\<open>getAuthorById\<close> return
  \<^verbatim>\<open>null\<close> (they have no failure), and update and delete fail with \<open>NotFoundError\<close>,
  whatever the update's input; the store is unchanged.
\<close>

theorem C5_absent_id:
  "(find_product ID' s = None \<longrightarrow>
      ProductQueryBuilder_findById ID' s = JNull \<and>
      ProductQueryBuilder_update Date_parse ID' udata s = (Inl NotFoundError, s) \<and>
      ProductQueryBuilder_delete ID' s = (Inl NotFoundError, s)) \<and>
   (find_author ID' s = None \<longrightarrow>
      getAuthorById ID' s = JNull \<and>
      updateAuthorById ID' author s = (Inl NotFoundError, s) \<and>
      deleteAuthorById ID' s = (Inl NotFoundError, s))"
  by (simp add: ProductQueryBuilder_findById_def db_product_findUnique_def
      ProductQueryBuilder_update_data db_product_update_def
      ProductQueryBuilder_delete_def db_product_delete_def
      getAuthorById_def db_author_findUnique_def
      updateAuthorById_def db_author_update_def
      deleteAuthorById_def db_author_delete_def)

theorem C5_absent_id_witness:
  "find_product 7 example_store = None \<and>
   ProductQueryBuilder_findById 7 example_store = JNull \<and>
   ProductQueryBuilder_update example_parse 7
     \<lparr>ProductUpdateData.title = Some ''Ghost'', isFiction = None,
      datePublish = None, authorID = None\<rparr> example_store = (Inl NotFoundError, example_store) \<and>
   ProductQueryBuilder_delete 7 example_store = (Inl NotFoundError, example_store) \<and>
   find_author 7 example_store = None \<and>
   getAuthorById 7 example_store = JNull \<and>
   updateAuthorById 7
     \<lparr>AuthorInput.firstName = Some ''No'', lastName = Some ''One'',
      createdAt = None, updatedAt = None\<rparr> example_store = (Inl NotFoundError, example_store) \<and>
   deleteAuthorById 7 example_store = (Inl NotFoundError, example_store)"
proof -
  have p: "find_product 7 example_store = None"
    by (simp add: find_product_def example_store_def)
  have a: "find_author 7 example_store = None"
    by (simp add: find_author_def example_store_def)
  show ?thesis
    using C5_absent_id [of 7 example_store example_parse
        "\<lparr>ProductUpdateData.title = Some ''Ghost'', isFiction = None,
          datePublish = None, authorID = None\<rparr>"
        "\<lparr>AuthorInput.firstName = Some ''No'', lastName = Some ''One'',
          createdAt = None, updatedAt = None\<rparr>"]
    by (simp add: p a)
qed

section \<open>The use cases\<close>

text \<open>
  C9 (as amended). The get-all, get-by-id, create and update use cases return exactly what
  the method of their builder returns on the same input, the injected builder or the default
  \<^verbatim>\<open>ProductQueryBuilder\<close>. The delete use case runs the builder's \<^verbatim>\<open>delete\<close>, with the same
  effect on the store and the same failure, and returns nothing in place of the deleted
  record.
\<close>

theorem C9_usecases_delegate:
  "GetProductsUsecase_execute (new_Usecase Date_parse b) s
     = findAll (case b of Some given \<Rightarrow> given | None \<Rightarrow> new_ProductQueryBuilder Date_parse) s \<and>
   GetProductByIdUsecase_execute (new_Usecase Date_parse b) ID' s
     = findById (case b of Some given \<Rightarrow> given | None \<Rightarrow> new_ProductQueryBuilder Date_parse) ID' s \<and>
   CreateProductUsecase_execute (new_Usecase Date_parse b) cdata s
     = create (case b of Some given \<Rightarrow> given | None \<Rightarrow> new_ProductQueryBuilder Date_parse) cdata s \<and>
   UpdateProductByIdUsecase_execute (new_Usecase Date_parse b) ID' udata s
     = update (case b of Some given \<Rightarrow> given | None \<Rightarrow> new_ProductQueryBuilder Date_parse) ID' udata s \<and>
   DeleteProductByIdUsecase_execute (new_Usecase Date_parse b) ID' s
     = (case delete (case b of Some given \<Rightarrow> given | None \<Rightarrow> new_ProductQueryBuilder Date_parse) ID' s of
          (Inl e, s') \<Rightarrow> (Inl e, s')
        | (Inr deleted, s') \<Rightarrow> (Inr JUndefined, s')) \<and>
   GetProductsUsecase_execute (new_Usecase Date_parse None) s = ProductQueryBuilder_findAll s \<and>
   GetProductByIdUsecase_execute (new_Usecase Date_parse None) ID' s
     = ProductQueryBuilder_findById ID' s \<and>
   CreateProductUsecase_execute (new_Usecase Date_parse None) cdata s
     = ProductQueryBuilder_create Date_parse cdata s \<and>
   UpdateProductByIdUsecase_execute (new_Usecase Date_parse None) ID' udata s
     = ProductQueryBuilder_update Date_parse ID' udata s \<and>
   snd (DeleteProductByIdUsecase_execute (new_Usecase Date_parse None) ID' s)
     = snd (ProductQueryBuilder_delete ID' s) \<and>
   isl (fst (DeleteProductByIdUsecase_execute (new_Usecase Date_parse None) ID' s))
     = isl (fst (ProductQueryBuilder_delete ID' s))"
  by (simp add: GetProductsUsecase_execute_def GetProductByIdUsecase_execute_def
      CreateProductUsecase_execute_def UpdateProductByIdUsecase_execute_def
      DeleteProductByIdUsecase_execute_def new_Usecase_def new_ProductQueryBuilder_def
      split: prod.split sum.split)

theorem C9_usecases_delegate_witness:
  "CreateProductUsecase_execute (new_Usecase example_parse None)
     \<lparr>ProductCreateData.title = ''Book two'', isFiction = False,
      datePublish = DateString ''2024-01-01'', authorID = 1\<rparr> example_store
   = ProductQueryBuilder_create example_parse
       \<lparr>ProductCreateData.title = ''Book two'', isFiction = False,
        datePublish = DateString ''2024-01-01'', authorID = 1\<rparr> example_store \<and>
   GetProductByIdUsecase_execute (new_Usecase example_parse None) 1 example_store
   = ProductQueryBuilder_findById 1 example_store \<and>
   snd (DeleteProductByIdUsecase_execute (new_Usecase example_parse None) 1 example_store)
   = snd (ProductQueryBuilder_delete 1 example_store)"
  using C9_usecases_delegate
    [of example_parse None example_store 1
        "\<lparr>ProductCreateData.title = ''Book two'', isFiction = False,
          datePublish = DateString ''2024-01-01'', authorID = 1\<rparr>"
        "\<lparr>ProductUpdateData.title = None, isFiction = None,
          datePublish = None, authorID = None\<rparr>"]
  by blast

text \<open>
  C9 (as stated) fails for the delete use case: on the example store the gateway's
  \<^verbatim>\<open>delete\<close> returns the deleted row and the use case returns \<^verbatim>\<open>undefined\<close>.
\<close>

theorem C9_delete_usecase_counterexample:
  "fst (DeleteProductByIdUsecase_execute (new_Usecase example_parse None) 1 example_store)
     = Inr JUndefined \<and>
   fst (ProductQueryBuilder_delete 1 example_store)
     = Inr (JObj [(''ID'', JNum 1), (''title'', JStr ''Book''), (''isFiction'', JBool True),
                  (''datePublish'', JDate (ValidDate 1000)), (''authorID'', JNum 1),
                  (''createdAt'', JDate (ValidDate 200)), (''updatedAt'', JDate (ValidDate 200))])"
  by (simp add: DeleteProductByIdUsecase_execute_def new_Usecase_def new_ProductQueryBuilder_def
      ProductQueryBuilder_delete_def db_product_delete_def example_find_product
      product_object_def)

section \<open>The PUT handler\<close>

text \<open>
  C10. In the PUT handler of the author router the test \<^verbatim>\<open>!errors.isEmpty\<close> is false for
  every request, since \<^verbatim>\<open>errors.isEmpty\<close> is a function object; so the handler never answers
  400, and its response is always the one built from the outcome of \<^verbatim>\<open>updateAuthorById\<close>
  (201 with the updated author, or 500 with the message of the failure).
\<close>

theorem C10_put_never_rejects:
  "(\<not> ToBoolean (Result_isEmpty errors)) = False \<and>
   authorRouter_put errors ID' author s =
     (case updateAuthorById ID' author s of
        (Inr updatedAuthor, s') \<Rightarrow> (\<lparr>status = 201, json = Json updatedAuthor\<rparr>, s')
      | (Inl e, s') \<Rightarrow> (\<lparr>status = 500, json = Message e\<rparr>, s')) \<and>
   status (fst (authorRouter_put errors ID' author s)) \<noteq> 400"
  by (simp add: authorRouter_put_def Result_isEmpty_def split: prod.split sum.split)

theorem C10_put_never_rejects_witness:
  "Result_isEmpty_call \<lparr>validation_errors = [JStr ''Invalid value'']\<rparr> = JBool False \<and>
   status (fst (authorRouter_put \<lparr>validation_errors = [JStr ''Invalid value'']\<rparr> 1
     \<lparr>AuthorInput.firstName = None, lastName = None, createdAt = None, updatedAt = None\<rparr>
     example_store)) = 201"
proof -
  obtain s' where
    "updateAuthorById 1
       \<lparr>AuthorInput.firstName = None, lastName = None, createdAt = None, updatedAt = None\<rparr>
       example_store = (Inr (getAuthorById 1 s'), s')"
    using updateAuthorById_success [OF example_find_author] by blast
  then show ?thesis
    using C10_put_never_rejects [of "\<lparr>validation_errors = [JStr ''Invalid value'']\<rparr>" 1
        "\<lparr>AuthorInput.firstName = None, lastName = None, createdAt = None, updatedAt = None\<rparr>"
        example_store]
    by (simp add: Result_isEmpty_call_def)
qed

section \<open>Further properties\<close>

text \<open>
  Every write of the gateway and of the author service keeps the store's invariant.
\<close>

theorem store_invariant_kept:
  assumes "wf_store s"
  shows "wf_store (snd (ProductQueryBuilder_create Date_parse cdata s)) \<and>
         wf_store (snd (ProductQueryBuilder_update Date_parse ID' udata s)) \<and>
         wf_store (snd (ProductQueryBuilder_delete ID' s)) \<and>
         wf_store (snd (updateAuthorById ID' author s)) \<and>
         wf_store (snd (deleteAuthorById ID' s))"
  using assms
  by (simp add: wf_store_create wf_store_update wf_store_delete wf_store_updateAuthorById
      wf_store_deleteAuthorById)

theorem store_invariant_kept_witness:
  "wf_store example_store \<and>
   wf_store (snd (ProductQueryBuilder_create example_parse
     \<lparr>ProductCreateData.title = ''Book two'', isFiction = False,
      datePublish = DateString ''2024-01-01'', authorID = 1\<rparr> example_store)) \<and>
   wf_store (snd (ProductQueryBuilder_delete 1 example_store)) \<and>
   wf_store (snd (deleteAuthorById 1 example_store))"
  using store_invariant_kept [OF example_wf, of example_parse
      "\<lparr>ProductCreateData.title = ''Book two'', isFiction = False,
        datePublish = DateString ''2024-01-01'', authorID = 1\<rparr>" 1]
    example_wf
  by simp

end
